theory Spec2Isabelle
  imports Complex_Main "HOL-Library.Word"
begin

section \<open>Data model\<close>

subsection \<open>Failures\<close>

text \<open>
  Every exception of the source is a value. One constructor per failure macro of the
  engine (\<^verbatim>\<open>VELOX_FAIL\<close>, \<^verbatim>\<open>VELOX_NYI\<close>, \<^verbatim>\<open>VELOX_UNSUPPORTED\<close>,
  \<^verbatim>\<open>VELOX_CHECK*\<close>, \<^verbatim>\<open>VELOX_USER_CHECK*\<close>), one per exception of the YAML library
  used by the catalog loader, and one for each way the C++ leaves the defined language
  (an index outside a repeated field, a read of a local that was never written, a call
  through a null pointer).
\<close>

datatype error =
    VeloxFail
  | VeloxNYI
  | VeloxUnsupported
  | VeloxCheckFailed
  | VeloxUserCheckFailed
  | IndexOutOfRange
  | UninitializedRead
  | NullPointer
  | YamlBadFile
  | YamlBadConversion
  | YamlBadSubscript

subsection \<open>Interchange (Substrait) messages\<close>

text \<open>A \<^verbatim>\<open>double\<close> is only stored and copied by the code modelled here, never computed with.\<close>

type_synonym double = real

datatype AggregationPhase =
    AGGREGATION_PHASE_UNSPECIFIED
  | AGGREGATION_PHASE_INITIAL_TO_INTERMEDIATE
  | AGGREGATION_PHASE_INTERMEDIATE_TO_INTERMEDIATE
  | AGGREGATION_PHASE_INITIAL_TO_RESULT
  | AGGREGATION_PHASE_INTERMEDIATE_TO_RESULT

datatype SortDirection =
    SORT_DIRECTION_UNSPECIFIED
  | SORT_DIRECTION_ASC_NULLS_FIRST
  | SORT_DIRECTION_ASC_NULLS_LAST
  | SORT_DIRECTION_DESC_NULLS_FIRST
  | SORT_DIRECTION_DESC_NULLS_LAST
  | SORT_DIRECTION_CLUSTERED

datatype JoinRel_JoinType =
    JOIN_TYPE_UNSPECIFIED
  | JOIN_TYPE_INNER
  | JOIN_TYPE_OUTER
  | JOIN_TYPE_LEFT
  | JOIN_TYPE_RIGHT
  | JOIN_TYPE_SEMI
  | JOIN_TYPE_ANTI
  | JOIN_TYPE_SINGLE

text \<open>The interchange type message; only handed to the type parser, never inspected.\<close>

datatype SubstraitTypeMsg = SBool | SI32 | SI64 | SFp64 | SString | SUserDefined nat

datatype ReferenceSegment =
    kStructField int
  | kMapKey
  | kListElement
  | REFERENCE_SEGMENT_NOT_SET

datatype FieldReference =
    kDirectReference ReferenceSegment
  | kMaskedReference
  | REFERENCE_TYPE_NOT_SET

datatype Literal =
    kBoolean bool
  | kI32 int
  | kI64 int
  | kFp64 double
  | kString string
  | kNull
  | LITERAL_TYPE_NOT_SET

text \<open>
  An expression message is a one-of (\<^verbatim>\<open>rex_type_case\<close>). A function argument is a
  one-of too; the code only ever reads its \<^verbatim>\<open>value()\<close>, which for an argument that is
  not a value is the default expression, so an argument is modelled by the expression
  that \<^verbatim>\<open>value()\<close> returns.
\<close>

datatype Expression =
    kLiteral Literal
  | kSelection FieldReference
  | kScalarFunction nat "Expression list" "SubstraitTypeMsg option"
  | kIfThen "(Expression \<times> Expression) list" "Expression option"
  | REX_TYPE_NOT_SET

text \<open>
  A scalar-function message on its own (\<^verbatim>\<open>Expression_ScalarFunction\<close>): function
  reference, arguments, output type.
\<close>

type_synonym ScalarFunction = "nat \<times> Expression list \<times> SubstraitTypeMsg option"

fun function_reference :: "ScalarFunction \<Rightarrow> nat" where
  "function_reference (r, args, ty) = r"

fun arguments :: "ScalarFunction \<Rightarrow> Expression list" where
  "arguments (r, args, ty) = args"

text \<open>Protocol-buffer accessors return the default message when the one-of holds another case.\<close>

fun selection :: "Expression \<Rightarrow> FieldReference" where
  "selection (kSelection f) = f"
| "selection _ = REFERENCE_TYPE_NOT_SET"

fun has_selection :: "Expression \<Rightarrow> bool" where
  "has_selection (kSelection f) = True"
| "has_selection _ = False"

fun direct_reference :: "FieldReference \<Rightarrow> ReferenceSegment" where
  "direct_reference (kDirectReference r) = r"
| "direct_reference _ = REFERENCE_SEGMENT_NOT_SET"

fun fp64 :: "Literal \<Rightarrow> double" where
  "fp64 (kFp64 d) = d"
| "fp64 _ = 0"

record AggregateFunction =
  agg_function_reference :: nat
  agg_arguments :: "Expression list"
  phase :: AggregationPhase
  agg_output_type :: SubstraitTypeMsg

record Measure =
  measure_fn :: AggregateFunction
  measure_filter :: "Expression option"

record SortField =
  direction :: SortDirection
  sort_expr :: "Expression option"

datatype FileFormatCase = kOrc | kParquet | FILE_FORMAT_NOT_SET

record FileOrFiles =
  partition_index :: nat
  uri_file :: string
  file_start :: nat
  file_length :: nat
  file_format_case :: FileFormatCase

record NamedStruct =
  struct_names :: "string list"
  struct_types :: "SubstraitTypeMsg list"

text \<open>
  A virtual table is a list of literal structs, each a list of literal fields. An optional
  field of a message is an \<open>option\<close>: \<^verbatim>\<open>has_x()\<close> is \<open>x \<noteq> None\<close>.
\<close>

datatype RelCommon = kDirect | kEmit "nat list"

record ReadRel =
  read_common :: "RelCommon option"
  base_schema :: "NamedStruct option"
  local_files :: "FileOrFiles list option"
  read_filter :: "Expression option"
  virtual_table :: "Literal list list option"

text \<open>
  The relation one-of. Each constructor lists the fields of its message in the order:
  common, input(s), payload. \<^verbatim>\<open>offset\<close> and \<^verbatim>\<open>count\<close> of a fetch are 64-bit integers.
\<close>

datatype Rel =
    AggregateRel "RelCommon option" "Rel option" "Expression list list" "Measure list"
  | ProjectRel "RelCommon option" "Rel option" "Expression list"
  | FilterRel "RelCommon option" "Rel option" Expression
  | ReadRelNode ReadRel
  | JoinRel "RelCommon option" "Rel option" "Rel option" Expression
      "Expression option" JoinRel_JoinType
  | FetchRel "Rel option" "64 word" "64 word"
  | SortRel "Rel option" "SortField list"
  | REL_TYPE_NOT_SET

datatype SimpleExtensionDeclaration =
    kExtensionFunction nat string
  | kExtensionType string
  | kExtensionTypeVariation
  | MAPPING_TYPE_NOT_SET

datatype PlanRel = kRoot "string list" "Rel option" | kRel Rel | PLAN_REL_NOT_SET

record Plan =
  extensions :: "SimpleExtensionDeclaration list"
  relations :: "PlanRel list"

subsection \<open>Native (engine) plan nodes, expressions and types\<close>

datatype Step = kPartial | kFinal | kIntermediate | kSingle

datatype SortOrder = kAscNullsFirst | kAscNullsLast | kDescNullsFirst | kDescNullsLast

datatype JoinType = kInner | kLeft | kRight | kFull | kLeftSemi | kRightSemi | kAnti

datatype Type = BOOLEAN | INTEGER | BIGINT | DOUBLE | VARCHAR | UNKNOWN

datatype RowType = ROW (names: "string list") (children: "Type list")

datatype variant = VBool bool | VInt int | VDouble double | VString string | VNull

text \<open>
  A constant expression holds either a scalar value or a value vector (\<open>None\<close> below:
  \<^verbatim>\<open>hasValueVector()\<close>). \<open>OtherTypedExpr\<close> stands for the expression kinds the
  converters never build themselves (casts, lambdas, ...).
\<close>

datatype Vector = FlatVector Type "variant list"

datatype TypedExpr =
    FieldAccessTypedExpr Type string
  | ConstantTypedExpr Type "variant option"
  | ConstantVectorExpr Vector
  | CallTypedExpr Type "TypedExpr list" string
  | OtherTypedExpr Type

record RowVector =
  row_type :: RowType
  row_size :: nat
  row_children :: "Vector list"

record DoubleRange =
  lower :: "double option"
  lowerUnbounded :: bool
  lowerExclusive :: bool
  upper :: "double option"
  upperUnbounded :: bool
  upperExclusive :: bool
  nullAllowed :: bool

type_synonym SubfieldFilters = "string \<rightharpoonup> DoubleRange"

record HiveTableHandle =
  connectorId :: string
  tableName :: string
  filterPushdownEnabled :: bool
  subfieldFilters :: SubfieldFilters
  remainingFilter :: "TypedExpr option"

datatype HiveColumnHandle = kRegular string Type

text \<open>
  A plan-node id is the decimal rendering of the converter's counter; the model keeps the
  number. Every constructor lists the arguments of the node's C++ constructor in order.
\<close>

type_synonym PlanNodeId = nat

datatype PlanNode =
    AggregationNode PlanNodeId Step "TypedExpr list" "TypedExpr list" "string list"
      "TypedExpr list" "TypedExpr option list" bool PlanNode
  | ProjectNode PlanNodeId "string list" "TypedExpr list" PlanNode
  | OrderByNode PlanNodeId "TypedExpr list" "SortOrder list" bool PlanNode
  | FilterNode PlanNodeId TypedExpr PlanNode
  | LimitNode PlanNodeId "32 word" "32 word" bool PlanNode
  | TableScanNode PlanNodeId RowType HiveTableHandle "string \<rightharpoonup> HiveColumnHandle"
  | ValuesNode PlanNodeId "RowVector list"
  | HashJoinNode PlanNodeId JoinType "TypedExpr list" "TypedExpr list" "TypedExpr option"
      PlanNode PlanNode RowType
  | MergeJoinNode PlanNodeId JoinType "TypedExpr list" "TypedExpr list" "TypedExpr option"
      PlanNode PlanNode RowType

datatype FileFormat = FF_UNKNOWN | DWRF | PARQUET

record SplitInfo =
  partitionIndex :: nat
  paths :: "string list"
  starts :: "nat list"
  lengths :: "nat list"
  format :: FileFormat

section \<open>Collaborators that are not part of the translated sources\<close>

text \<open>
  The plan converter calls into the expression converter, the plan parser, the type
  utilities and the engine's own node and type classes. Those whose behaviour no property
  below depends on are parameters; they may fail.
\<close>

type_synonym functionMap = "nat \<rightharpoonup> string"

record Collaborators =
  toVeloxExpr :: "Expression \<Rightarrow> RowType \<Rightarrow> error + TypedExpr"
  toVeloxExpr_Literal :: "Literal \<Rightarrow> error + TypedExpr"
  findVeloxFunction :: "functionMap \<Rightarrow> nat \<Rightarrow> error + string"
  toVeloxType :: "SubstraitTypeMsg \<Rightarrow> error + Type"
  makeNodeName :: "nat \<Rightarrow> nat \<Rightarrow> string"
  fromProto :: "JoinRel_JoinType \<Rightarrow> error + JoinType"
  setVectorFromVariants :: "Type \<Rightarrow> variant list \<Rightarrow> error + Vector"

text \<open>
  Modelled from the spec: \<^verbatim>\<open>SubstraitParser::findFunctionSpec\<close> is not among the
  sources. A function is resolved by name through the plan's own anchor-to-name table;
  an anchor the table does not hold is fatal.
\<close>

definition findFunctionSpec :: "functionMap \<Rightarrow> nat \<Rightarrow> error + string" where
  "findFunctionSpec fm anchor = (case fm anchor of None \<Rightarrow> Inl VeloxFail | Some spec \<Rightarrow> Inr spec)"

text \<open>
  Modelled from the spec: \<^verbatim>\<open>getNameBeforeDelimiter\<close> is not among the sources. It
  returns the part of a compound name before the first delimiter, the whole name when
  there is none; every caller passes the one-character delimiter \<^verbatim>\<open>":"\<close>.
\<close>

definition getNameBeforeDelimiter :: "string \<Rightarrow> char \<Rightarrow> string" where
  "getNameBeforeDelimiter compoundName delimiter = takeWhile (\<lambda>c. c \<noteq> delimiter) compoundName"

text \<open>
  Modelled from the spec: \<^verbatim>\<open>SubstraitParser::parseReferenceSegment\<close> is not among the
  sources. Field addressing is index-based: a struct-field segment yields its field
  index, any other segment is not supported.
\<close>

fun parseReferenceSegment :: "ReferenceSegment \<Rightarrow> error + int" where
  "parseReferenceSegment (kStructField i) = Inr i"
| "parseReferenceSegment _ = Inl VeloxNYI"

text \<open>
  Modelled from the spec: the field-reference rule of the expression converter
  (\<^verbatim>\<open>SubstraitVeloxExprConverter::toVeloxExpr(FieldReference, RowType)\<close>) is not among
  the sources. A field reference converts by direct rule to a field access on the column
  with that index; an index outside the schema of the evaluation context is fatal, and so
  is a reference that is not a direct reference.
\<close>

fun toVeloxExpr_FieldReference :: "FieldReference \<Rightarrow> RowType \<Rightarrow> error + TypedExpr" where
  "toVeloxExpr_FieldReference (kDirectReference dRef) inputType =
     (case parseReferenceSegment dRef of
        Inl e \<Rightarrow> Inl e
      | Inr colIdx \<Rightarrow>
          if 0 \<le> colIdx \<and> nat colIdx < length (names inputType)
               \<and> nat colIdx < length (children inputType)
          then Inr (FieldAccessTypedExpr (children inputType ! nat colIdx)
                      (names inputType ! nat colIdx))
          else Inl VeloxFail)"
| "toVeloxExpr_FieldReference _ inputType = Inl VeloxNYI"

text \<open>
  Modelled from the spec: \<^verbatim>\<open>RowType::unionWith\<close> is not among the sources. The union
  of two schemas is the columns of the first followed by the columns of the second, as
  \<^verbatim>\<open>mergeRowTypes\<close> of the outbound converter builds it.
\<close>

definition unionWith :: "RowType \<Rightarrow> RowType \<Rightarrow> RowType" where
  "unionWith l r = ROW (names l @ names r) (children l @ children r)"

fun type_of :: "TypedExpr \<Rightarrow> Type" where
  "type_of (FieldAccessTypedExpr t n) = t"
| "type_of (ConstantTypedExpr t v) = t"
| "type_of (ConstantVectorExpr (FlatVector t vs)) = t"
| "type_of (CallTypedExpr t args n) = t"
| "type_of (OtherTypedExpr t) = t"

fun field_name :: "TypedExpr \<Rightarrow> string" where
  "field_name (FieldAccessTypedExpr t n) = n"
| "field_name _ = []"

text \<open>
  Modelled from the spec: the node classes of the engine are not among the sources. A
  plan node carries an output schema computed once at construction: a filter, a limit and
  a sort have the schema of their input; a projection has its names with the types of its
  expressions; an aggregation has its grouping keys followed by its aggregates; a scan and
  a join have the schema they were built with; a values node has the schema of its first
  batch.
\<close>

fun outputType :: "PlanNode \<Rightarrow> RowType" where
  "outputType (AggregationNode i st keys pre aggNames aggs masks ign src) =
     ROW (map field_name keys @ aggNames) (map type_of keys @ map type_of aggs)"
| "outputType (ProjectNode i ns exprs src) = ROW ns (map type_of exprs)"
| "outputType (OrderByNode i keys orders p src) = outputType src"
| "outputType (FilterNode i f src) = outputType src"
| "outputType (LimitNode i off cnt p src) = outputType src"
| "outputType (TableScanNode i t h a) = t"
| "outputType (ValuesNode i vs) = (case vs of [] \<Rightarrow> ROW [] [] | v # _ \<Rightarrow> row_type v)"
| "outputType (HashJoinNode i jt lk rk f l r t) = t"
| "outputType (MergeJoinNode i jt lk rk f l r t) = t"

fun node_id :: "PlanNode \<Rightarrow> PlanNodeId" where
  "node_id (AggregationNode i st keys pre aggNames aggs masks ign src) = i"
| "node_id (ProjectNode i ns exprs src) = i"
| "node_id (OrderByNode i keys orders p src) = i"
| "node_id (FilterNode i f src) = i"
| "node_id (LimitNode i off cnt p src) = i"
| "node_id (TableScanNode i t h a) = i"
| "node_id (ValuesNode i vs) = i"
| "node_id (HashJoinNode i jt lk rk f l r t) = i"
| "node_id (MergeJoinNode i jt lk rk f l r t) = i"

text \<open>A loop that converts every element in order and stops at the first failure.\<close>

fun forEach :: "('a \<Rightarrow> error + 'b) \<Rightarrow> 'a list \<Rightarrow> error + 'b list" where
  "forEach f [] = Inr []"
| "forEach f (x # xs) =
     (case f x of
        Inl e \<Rightarrow> Inl e
      | Inr y \<Rightarrow> (case forEach f xs of Inl e \<Rightarrow> Inl e | Inr ys \<Rightarrow> Inr (y # ys)))"

section \<open>Inbound conversion: interchange plan to native plan\<close>

subsection \<open>Aggregation step\<close>

text \<open>
  \<^verbatim>\<open>toAggregationStep\<close> reads only the measures of the aggregate message, so the model
  takes them.
\<close>

fun toAggregationStep :: "Measure list \<Rightarrow> error + Step" where
  "toAggregationStep [] = Inr kSingle"
| "toAggregationStep (firstMeasure # ms) =
     (case phase (measure_fn firstMeasure) of
        AGGREGATION_PHASE_INITIAL_TO_INTERMEDIATE \<Rightarrow> Inr kPartial
      | AGGREGATION_PHASE_INTERMEDIATE_TO_INTERMEDIATE \<Rightarrow> Inr kIntermediate
      | AGGREGATION_PHASE_INTERMEDIATE_TO_RESULT \<Rightarrow> Inr kFinal
      | AGGREGATION_PHASE_INITIAL_TO_RESULT \<Rightarrow> Inr kSingle
      | AGGREGATION_PHASE_UNSPECIFIED \<Rightarrow> Inl VeloxFail)"

subsection \<open>Filter push-down: flattening and range folding\<close>

record FilterInfo =
  fi_left :: "double option"
  fi_right :: "double option"
  fi_nullAllowed :: bool
  fi_leftExclusive :: bool
  fi_rightExclusive :: bool
  fi_isInitialized :: bool

definition FilterInfo_new :: FilterInfo where
  "FilterInfo_new =
     \<lparr>fi_left = None, fi_right = None, fi_nullAllowed = True, fi_leftExclusive = False,
      fi_rightExclusive = False, fi_isInitialized = False\<rparr>"

definition setLeft :: "double \<Rightarrow> bool \<Rightarrow> FilterInfo \<Rightarrow> FilterInfo" where
  "setLeft l isExclusive fi =
     fi\<lparr>fi_left := Some l, fi_leftExclusive := isExclusive, fi_isInitialized := True\<rparr>"

definition setRight :: "double \<Rightarrow> bool \<Rightarrow> FilterInfo \<Rightarrow> FilterInfo" where
  "setRight r isExclusive fi =
     fi\<lparr>fi_right := Some r, fi_rightExclusive := isExclusive, fi_isInitialized := True\<rparr>"

definition forbidsNull :: "FilterInfo \<Rightarrow> FilterInfo" where
  "forbidsNull fi = fi\<lparr>fi_nullAllowed := False, fi_isInitialized := True\<rparr>"

definition isInitialized :: "FilterInfo \<Rightarrow> bool" where
  "isInitialized fi = (if fi_isInitialized fi then True else False)"

text \<open>
  \<^verbatim>\<open>flattenConditions\<close> appends to the vector it is given; the loop over the
  arguments of an \<^verbatim>\<open>and\<close> is \<open>flattenConditions_args\<close>.
\<close>

fun flattenConditions :: "functionMap \<Rightarrow> Expression \<Rightarrow> ScalarFunction list
      \<Rightarrow> error + ScalarFunction list"
  and flattenConditions_args :: "functionMap \<Rightarrow> Expression list \<Rightarrow> ScalarFunction list
      \<Rightarrow> error + ScalarFunction list" where
  "flattenConditions fm (kScalarFunction r args ty) scalarFunctions =
     (case findFunctionSpec fm r of
        Inl e \<Rightarrow> Inl e
      | Inr filterNameSpec \<Rightarrow>
          if getNameBeforeDelimiter filterNameSpec (CHR '':'') = ''and''
          then flattenConditions_args fm args scalarFunctions
          else Inr (scalarFunctions @ [(r, args, ty)]))"
| "flattenConditions fm (kLiteral l) scalarFunctions = Inl VeloxNYI"
| "flattenConditions fm (kSelection f) scalarFunctions = Inl VeloxNYI"
| "flattenConditions fm (kIfThen cs e) scalarFunctions = Inl VeloxNYI"
| "flattenConditions fm REX_TYPE_NOT_SET scalarFunctions = Inl VeloxNYI"
| "flattenConditions_args fm [] scalarFunctions = Inr scalarFunctions"
| "flattenConditions_args fm (sCondition # rest) scalarFunctions =
     (case flattenConditions fm sCondition scalarFunctions of
        Inl e \<Rightarrow> Inl e
      | Inr scalarFunctions' \<Rightarrow> flattenConditions_args fm rest scalarFunctions')"

text \<open>
  The loop over the arguments of one leaf. \<^verbatim>\<open>colIdx\<close> and \<^verbatim>\<open>val\<close> are locals
  declared without an initial value; \<open>None\<close> is "not written yet".
\<close>

fun scanArguments :: "Expression list \<Rightarrow> int option \<times> double option
      \<Rightarrow> error + (int option \<times> double option)" where
  "scanArguments [] cv = Inr cv"
| "scanArguments (kSelection sel # rest) (colIdx, val) =
     (case parseReferenceSegment (direct_reference sel) of
        Inl e \<Rightarrow> Inl e
      | Inr i \<Rightarrow> scanArguments rest (Some i, val))"
| "scanArguments (kLiteral sLit # rest) (colIdx, val) = scanArguments rest (colIdx, Some (fp64 sLit))"
| "scanArguments (kScalarFunction r args ty # rest) cv = Inl VeloxNYI"
| "scanArguments (kIfThen cs e # rest) cv = Inl VeloxNYI"
| "scanArguments (REX_TYPE_NOT_SET # rest) cv = Inl VeloxNYI"

text \<open>
  \<^verbatim>\<open>colInfoMap[colIdx]->f(...)\<close>: a read of \<^verbatim>\<open>colIdx\<close>, then a call through the
  shared pointer stored under that key; a key the map does not hold yields a null pointer.
\<close>

definition onColumn :: "(int \<rightharpoonup> FilterInfo) \<Rightarrow> int option \<Rightarrow> (FilterInfo \<Rightarrow> FilterInfo)
      \<Rightarrow> error + (int \<rightharpoonup> FilterInfo)" where
  "onColumn colInfoMap colIdx f =
     (case colIdx of
        None \<Rightarrow> Inl UninitializedRead
      | Some i \<Rightarrow>
          (case colInfoMap i of
             None \<Rightarrow> Inl NullPointer
           | Some fi \<Rightarrow> Inr (colInfoMap(i \<mapsto> f fi))))"

definition onColumnWith :: "(int \<rightharpoonup> FilterInfo) \<Rightarrow> int option \<Rightarrow> double option
      \<Rightarrow> (double \<Rightarrow> FilterInfo \<Rightarrow> FilterInfo) \<Rightarrow> error + (int \<rightharpoonup> FilterInfo)" where
  "onColumnWith colInfoMap colIdx val f =
     (case val of
        None \<Rightarrow> Inl UninitializedRead
      | Some v \<Rightarrow> onColumn colInfoMap colIdx (f v))"

text \<open>The body of the loop over the flattened leaves.\<close>

definition foldLeaf :: "functionMap \<Rightarrow> (int \<rightharpoonup> FilterInfo) \<Rightarrow> ScalarFunction
      \<Rightarrow> error + (int \<rightharpoonup> FilterInfo)" where
  "foldLeaf fm colInfoMap scalarFunction =
     (case findFunctionSpec fm (function_reference scalarFunction) of
        Inl e \<Rightarrow> Inl e
      | Inr filterNameSpec \<Rightarrow>
          (let filterName = getNameBeforeDelimiter filterNameSpec (CHR '':'') in
           case scanArguments (arguments scalarFunction) (None, None) of
             Inl e \<Rightarrow> Inl e
           | Inr (colIdx, val) \<Rightarrow>
               if filterName = ''is_not_null'' then onColumn colInfoMap colIdx forbidsNull
               else if filterName = ''gte'' then
                 onColumnWith colInfoMap colIdx val (\<lambda>v. setLeft v False)
               else if filterName = ''gt'' then
                 onColumnWith colInfoMap colIdx val (\<lambda>v. setLeft v True)
               else if filterName = ''lte'' then
                 onColumnWith colInfoMap colIdx val (\<lambda>v. setRight v False)
               else if filterName = ''lt'' then
                 onColumnWith colInfoMap colIdx val (\<lambda>v. setRight v True)
               else Inl VeloxNYI))"

fun foldLeaves :: "functionMap \<Rightarrow> (int \<rightharpoonup> FilterInfo) \<Rightarrow> ScalarFunction list
      \<Rightarrow> error + (int \<rightharpoonup> FilterInfo)" where
  "foldLeaves fm colInfoMap [] = Inr colInfoMap"
| "foldLeaves fm colInfoMap (scalarFunction # rest) =
     (case foldLeaf fm colInfoMap scalarFunction of
        Inl e \<Rightarrow> Inl e
      | Inr colInfoMap' \<Rightarrow> foldLeaves fm colInfoMap' rest)"

text \<open>
  The range built for one initialised column. A bound that was never set is passed on as
  the unwritten local it is (\<open>None\<close>) together with its "unbounded" flag.
\<close>

definition toDoubleRange :: "FilterInfo \<Rightarrow> DoubleRange" where
  "toDoubleRange filterInfo =
     \<lparr>lower = fi_left filterInfo,
      lowerUnbounded = (fi_left filterInfo = None),
      lowerExclusive = (if fi_left filterInfo = None then False else fi_leftExclusive filterInfo),
      upper = fi_right filterInfo,
      upperUnbounded = (fi_right filterInfo = None),
      upperExclusive = (if fi_right filterInfo = None then False else fi_rightExclusive filterInfo),
      nullAllowed = fi_nullAllowed filterInfo\<rparr>"

fun constructFilters :: "string list \<Rightarrow> (int \<rightharpoonup> FilterInfo) \<Rightarrow> nat list \<Rightarrow> SubfieldFilters
      \<Rightarrow> error + SubfieldFilters" where
  "constructFilters inputNameList colInfoMap [] filters = Inr filters"
| "constructFilters inputNameList colInfoMap (idx # rest) filters =
     (case colInfoMap (int idx) of
        None \<Rightarrow> Inl NullPointer
      | Some filterInfo \<Rightarrow>
          if isInitialized filterInfo
          then constructFilters inputNameList colInfoMap rest
                 (filters(inputNameList ! idx \<mapsto> toDoubleRange filterInfo))
          else constructFilters inputNameList colInfoMap rest filters)"

definition colInfoMap_new :: "nat \<Rightarrow> (int \<rightharpoonup> FilterInfo)" where
  "colInfoMap_new n = (\<lambda>i. if 0 \<le> i \<and> i < int n then Some FilterInfo_new else None)"

definition toVeloxFilter :: "functionMap \<Rightarrow> string list \<Rightarrow> Type list \<Rightarrow> Expression
      \<Rightarrow> error + SubfieldFilters" where
  "toVeloxFilter fm inputNameList inputTypeList substraitFilter =
     (case flattenConditions fm substraitFilter [] of
        Inl e \<Rightarrow> Inl e
      | Inr scalarFunctions \<Rightarrow>
          (case foldLeaves fm (colInfoMap_new (length inputNameList)) scalarFunctions of
             Inl e \<Rightarrow> Inl e
           | Inr colInfoMap \<Rightarrow>
               constructFilters inputNameList colInfoMap [0..<length inputNameList] Map.empty))"

subsection \<open>Join-key decomposition\<close>

text \<open>
  The work list \<^verbatim>\<open>expressions\<close> is a vector used as a stack: the model keeps its back
  at the head of the list. Indexing a repeated field outside its size is undefined in the
  C++; the model fails there.
\<close>

function extractJoinKeys_loop :: "functionMap \<Rightarrow> Expression list
      \<Rightarrow> FieldReference list \<times> FieldReference list
      \<Rightarrow> error + (FieldReference list \<times> FieldReference list)" where
  "extractJoinKeys_loop fm [] keys = Inr keys"
| "extractJoinKeys_loop fm (kScalarFunction r args ty # expressions) (leftExprs, rightExprs) =
     (case findFunctionSpec fm r of
        Inl e \<Rightarrow> Inl e
      | Inr funcName \<Rightarrow>
          if funcName = ''and'' then
            (case args of
               a0 # a1 # others \<Rightarrow>
                 extractJoinKeys_loop fm (a1 # a0 # expressions) (leftExprs, rightExprs)
             | _ \<Rightarrow> Inl IndexOutOfRange)
          else if funcName = ''eq'' then
            (if \<not> list_all has_selection args then Inl VeloxCheckFailed
             else case args of
               a0 # a1 # others \<Rightarrow>
                 extractJoinKeys_loop fm expressions
                   (leftExprs @ [selection a0], rightExprs @ [selection a1])
             | _ \<Rightarrow> Inl IndexOutOfRange)
          else Inl VeloxNYI)"
| "extractJoinKeys_loop fm (kLiteral l # expressions) keys = Inl VeloxFail"
| "extractJoinKeys_loop fm (kSelection f # expressions) keys = Inl VeloxFail"
| "extractJoinKeys_loop fm (kIfThen cs e # expressions) keys = Inl VeloxFail"
| "extractJoinKeys_loop fm (REX_TYPE_NOT_SET # expressions) keys = Inl VeloxFail"
  by pat_completeness auto
termination
  by (relation "measure (\<lambda>(fm, expressions, keys). size_list size expressions)") auto

definition extractJoinKeys :: "functionMap \<Rightarrow> Expression
      \<Rightarrow> error + (FieldReference list \<times> FieldReference list)" where
  "extractJoinKeys fm joinExpression = extractJoinKeys_loop fm [joinExpression] ([], [])"


subsection \<open>The plan converter\<close>

text \<open>
  The converter object holds the function map (built once per plan, then only read), the
  counter for plan-node ids and the table of split information.
\<close>

record ConverterState =
  planNodeId :: nat
  splitInfoMap :: "PlanNodeId \<rightharpoonup> SplitInfo"

definition nextPlanNodeId :: "ConverterState \<Rightarrow> PlanNodeId \<times> ConverterState" where
  "nextPlanNodeId s = (planNodeId s, s\<lparr>planNodeId := planNodeId s + 1\<rparr>)"

text \<open>
  Each \<^verbatim>\<open>toVeloxPlan\<close> overload first converts its input(s) by the recursive call and
  then builds its node. The second part is a definition of its own below, taking the
  converted input; the recursion is \<open>toVeloxPlan_Rel\<close> at the end.
\<close>

text \<open>One round of the loop over the measures: the mask (if any) and the aggregate call.\<close>

definition convertMeasure :: "Collaborators \<Rightarrow> functionMap \<Rightarrow> RowType \<Rightarrow> Measure
      \<Rightarrow> error + (TypedExpr option list \<times> TypedExpr)" where
  "convertMeasure k fm inputType m =
     (case (case measure_filter m of
              None \<Rightarrow> Inr []
            | Some substraitAggMask \<Rightarrow>
                if substraitAggMask = REX_TYPE_NOT_SET then Inr [None]
                else (case toVeloxExpr k substraitAggMask inputType of
                        Inl e \<Rightarrow> Inl e
                      | Inr (FieldAccessTypedExpr t n) \<Rightarrow> Inr [Some (FieldAccessTypedExpr t n)]
                      | Inr _ \<Rightarrow> Inr [None])) of
        Inl e \<Rightarrow> Inl e
      | Inr aggregateMask \<Rightarrow>
          (let aggFunction = measure_fn m in
           case findVeloxFunction k fm (agg_function_reference aggFunction) of
             Inl e \<Rightarrow> Inl e
           | Inr funcName \<Rightarrow>
               (case forEach (\<lambda>arg. toVeloxExpr k arg inputType) (agg_arguments aggFunction) of
                  Inl e \<Rightarrow> Inl e
                | Inr aggParams \<Rightarrow>
                    (case toVeloxType k (agg_output_type aggFunction) of
                       Inl e \<Rightarrow> Inl e
                     | Inr aggVeloxType \<Rightarrow>
                         Inr (aggregateMask, CallTypedExpr aggVeloxType aggParams funcName)))))"

definition toVeloxPlan_AggregateRel :: "Collaborators \<Rightarrow> functionMap
      \<Rightarrow> Expression list list \<Rightarrow> Measure list \<Rightarrow> PlanNode \<Rightarrow> ConverterState
      \<Rightarrow> error + (PlanNode \<times> ConverterState)" where
  "toVeloxPlan_AggregateRel k fm groupings aggMeasures childNode s =
     (case toAggregationStep aggMeasures of
        Inl e \<Rightarrow> Inl e
      | Inr aggStep \<Rightarrow>
          (let inputType = outputType childNode in
           case forEach (\<lambda>groupingExpr. toVeloxExpr_FieldReference (selection groupingExpr) inputType)
                  (concat groupings) of
             Inl e \<Rightarrow> Inl e
           | Inr veloxGroupingExprs \<Rightarrow>
               (case forEach (convertMeasure k fm inputType) aggMeasures of
                  Inl e \<Rightarrow> Inl e
                | Inr converted \<Rightarrow>
                    (let aggExprs = map snd converted;
                         aggregateMasks = concat (map fst converted);
                         aggOutNames = map (makeNodeName k (planNodeId s))
                           [length veloxGroupingExprs ..<
                              length veloxGroupingExprs + length aggMeasures];
                         (nodeId, s') = nextPlanNodeId s
                     in Inr (AggregationNode nodeId aggStep veloxGroupingExprs [] aggOutNames
                               aggExprs aggregateMasks False childNode, s')))))"

definition toVeloxPlan_ProjectRel :: "Collaborators \<Rightarrow> Expression list \<Rightarrow> PlanNode
      \<Rightarrow> ConverterState \<Rightarrow> error + (PlanNode \<times> ConverterState)" where
  "toVeloxPlan_ProjectRel k projectExprs childNode s =
     (let inputType = outputType childNode in
      case forEach (\<lambda>expr. toVeloxExpr k expr inputType) projectExprs of
        Inl e \<Rightarrow> Inl e
      | Inr expressions \<Rightarrow>
          (let projectNames = map (makeNodeName k (planNodeId s)) [0..<length projectExprs];
               (nodeId, s') = nextPlanNodeId s
           in Inr (ProjectNode nodeId projectNames expressions childNode, s')))"

text \<open>One round of the loop over the sort fields: the order, and the key when there is one.\<close>

definition convertSortField :: "Collaborators \<Rightarrow> RowType \<Rightarrow> SortField
      \<Rightarrow> error + (SortOrder \<times> TypedExpr list)" where
  "convertSortField k inputType sortField =
     (case (case direction sortField of
              SORT_DIRECTION_ASC_NULLS_FIRST \<Rightarrow> Inr kAscNullsFirst
            | SORT_DIRECTION_ASC_NULLS_LAST \<Rightarrow> Inr kAscNullsLast
            | SORT_DIRECTION_DESC_NULLS_FIRST \<Rightarrow> Inr kDescNullsFirst
            | SORT_DIRECTION_DESC_NULLS_LAST \<Rightarrow> Inr kDescNullsLast
            | _ \<Rightarrow> Inl VeloxFail) of
        Inl e \<Rightarrow> Inl e
      | Inr sortingOrder \<Rightarrow>
          (case sort_expr sortField of
             None \<Rightarrow> Inr (sortingOrder, [])
           | Some expr \<Rightarrow>
               (case toVeloxExpr k expr inputType of
                  Inl e \<Rightarrow> Inl e
                | Inr (FieldAccessTypedExpr t n) \<Rightarrow> Inr (sortingOrder, [FieldAccessTypedExpr t n])
                | Inr _ \<Rightarrow> Inl VeloxCheckFailed)))"

definition toVeloxPlan_SortRel :: "Collaborators \<Rightarrow> SortField list \<Rightarrow> PlanNode
      \<Rightarrow> ConverterState \<Rightarrow> error + (PlanNode \<times> ConverterState)" where
  "toVeloxPlan_SortRel k sorts childNode s =
     (let inputType = outputType childNode in
      case forEach (convertSortField k inputType) sorts of
        Inl e \<Rightarrow> Inl e
      | Inr converted \<Rightarrow>
          (let sortingOrders = map fst converted;
               sortingKeys = concat (map snd converted);
               (nodeId, s') = nextPlanNodeId s
           in Inr (OrderByNode nodeId sortingKeys sortingOrders False childNode, s')))"

definition toVeloxPlan_FilterRel :: "Collaborators \<Rightarrow> Expression \<Rightarrow> PlanNode
      \<Rightarrow> ConverterState \<Rightarrow> error + (PlanNode \<times> ConverterState)" where
  "toVeloxPlan_FilterRel k sExpr childNode s =
     (let inputType = outputType childNode;
          (nodeId, s') = nextPlanNodeId s
      in case toVeloxExpr k sExpr inputType of
           Inl e \<Rightarrow> Inl e
         | Inr filterExpr \<Rightarrow> Inr (FilterNode nodeId filterExpr childNode, s'))"

text \<open>
  \<^verbatim>\<open>(int32_t)\<close> applied to the 64-bit offset and count keeps the low 32 bits
  (\<open>ucast\<close> to the shorter word); the limit node reads them as signed.
\<close>

definition toVeloxPlan_FetchRel :: "64 word \<Rightarrow> 64 word \<Rightarrow> PlanNode
      \<Rightarrow> ConverterState \<Rightarrow> error + (PlanNode \<times> ConverterState)" where
  "toVeloxPlan_FetchRel fetch_offset fetch_count childNode s =
     (let (nodeId, s') = nextPlanNodeId s
      in Inr (LimitNode nodeId (ucast fetch_offset) (ucast fetch_count) False childNode, s'))"

text \<open>Literal-data-backed read: one round of the innermost loop decodes one literal field.\<close>

definition convertField :: "Collaborators \<Rightarrow> Literal \<Rightarrow> error + variant" where
  "convertField k lit =
     (case toVeloxExpr_Literal k lit of
        Inl e \<Rightarrow> Inl e
      | Inr (ConstantTypedExpr t (Some v)) \<Rightarrow> Inr v
      | Inr (ConstantTypedExpr t None) \<Rightarrow> Inl VeloxUnsupported
      | Inr (ConstantVectorExpr vec) \<Rightarrow> Inl VeloxUnsupported
      | Inr _ \<Rightarrow> Inl VeloxFail)"

definition fields_at :: "Literal list \<Rightarrow> nat \<Rightarrow> error + Literal" where
  "fields_at rowValue fieldIdx =
     (if fieldIdx < length rowValue then Inr (rowValue ! fieldIdx) else Inl IndexOutOfRange)"

definition convertColumn :: "Collaborators \<Rightarrow> RowType \<Rightarrow> nat \<Rightarrow> Literal list \<Rightarrow> nat
      \<Rightarrow> error + Vector" where
  "convertColumn k rowType batchSize rowValue col =
     (case forEach (\<lambda>batchId.
               case fields_at rowValue (col * batchSize + batchId) of
                 Inl e \<Rightarrow> Inl e
               | Inr lit \<Rightarrow> convertField k lit)
             [0..<batchSize] of
        Inl e \<Rightarrow> Inl e
      | Inr batchChild \<Rightarrow> setVectorFromVariants k (children rowType ! col) batchChild)"

definition convertBatch :: "Collaborators \<Rightarrow> RowType \<Rightarrow> nat \<Rightarrow> nat \<Rightarrow> Literal list
      \<Rightarrow> error + RowVector" where
  "convertBatch k rowType numColumns batchSize rowValue =
     (let fieldSize = length rowValue in
      if fieldSize \<noteq> batchSize * numColumns then Inl VeloxCheckFailed
      else case forEach (convertColumn k rowType batchSize rowValue) [0..<numColumns] of
             Inl e \<Rightarrow> Inl e
           | Inr cs \<Rightarrow> Inr \<lparr>row_type = rowType, row_size = batchSize, row_children = cs\<rparr>)"

text \<open>
  \<^verbatim>\<open>toVeloxPlan(ReadRel, RowTypePtr)\<close>. \<^verbatim>\<open>type->size()\<close> is the number of columns.
  With no batch at all, \<^verbatim>\<open>values(numVectors - 1)\<close> indexes the repeated field at -1.
\<close>

definition toVeloxPlan_ReadRel_RowType :: "Collaborators \<Rightarrow> ReadRel \<Rightarrow> RowType
      \<Rightarrow> ConverterState \<Rightarrow> error + (PlanNode \<times> ConverterState)" where
  "toVeloxPlan_ReadRel_RowType k readRel rowType s =
     (let readVirtualTable = (case virtual_table readRel of None \<Rightarrow> [] | Some vs \<Rightarrow> vs);
          numVectors = length readVirtualTable;
          numColumns = length (children rowType)
      in if numVectors = 0 then Inl IndexOutOfRange
         else
           (let valueFieldNums = length (last readVirtualTable);
                batchSize = (if numColumns = 0 then 1 else valueFieldNums div numColumns)
            in case forEach (convertBatch k rowType numColumns batchSize) readVirtualTable of
                 Inl e \<Rightarrow> Inl e
               | Inr vectors \<Rightarrow>
                   (let (nodeId, s') = nextPlanNodeId s in Inr (ValuesNode nodeId vectors, s'))))"

text \<open>The loop over the local files fills the split information.\<close>

definition addFile :: "SplitInfo \<Rightarrow> FileOrFiles \<Rightarrow> SplitInfo" where
  "addFile splitInfo file =
     splitInfo\<lparr>partitionIndex := partition_index file,
       paths := paths splitInfo @ [uri_file file],
       starts := starts splitInfo @ [file_start file],
       lengths := lengths splitInfo @ [file_length file],
       format := (case file_format_case file of
                    kOrc \<Rightarrow> DWRF | kParquet \<Rightarrow> PARQUET | FILE_FORMAT_NOT_SET \<Rightarrow> FF_UNKNOWN)\<rparr>"

definition SplitInfo_new :: SplitInfo where
  "SplitInfo_new = \<lparr>partitionIndex = 0, paths = [], starts = [], lengths = [], format = FF_UNKNOWN\<rparr>"

text \<open>
  \<^verbatim>\<open>toVeloxPlan(ReadRel, splitInfo)\<close>. The loop over the column names indexes the
  type list with the same index, so fewer types than names is an index out of range.
\<close>

definition toVeloxPlan_ReadRel :: "Collaborators \<Rightarrow> functionMap \<Rightarrow> ReadRel \<Rightarrow> SplitInfo
      \<Rightarrow> ConverterState \<Rightarrow> error + (PlanNode \<times> SplitInfo \<times> ConverterState)" where
  "toVeloxPlan_ReadRel k fm readRel splitInfo s =
     (let colNameList = (case base_schema readRel of None \<Rightarrow> [] | Some b \<Rightarrow> struct_names b) in
      case (case base_schema readRel of
              None \<Rightarrow> Inr []
            | Some b \<Rightarrow> forEach (toVeloxType k) (struct_types b)) of
        Inl e \<Rightarrow> Inl e
      | Inr veloxTypeList \<Rightarrow>
          (let splitInfo' = (case local_files readRel of
                               None \<Rightarrow> splitInfo
                             | Some fileList \<Rightarrow> foldl addFile splitInfo fileList) in
           case (case read_filter readRel of
                   None \<Rightarrow> Inr Map.empty
                 | Some f \<Rightarrow> toVeloxFilter fm colNameList veloxTypeList f) of
             Inl e \<Rightarrow> Inl e
           | Inr filters \<Rightarrow>
               (let tableHandle = \<lparr>connectorId = ''test-hive'', tableName = ''hive_table'',
                      filterPushdownEnabled = True, subfieldFilters = filters,
                      remainingFilter = None\<rparr>
                in if length veloxTypeList < length colNameList then Inl IndexOutOfRange
                   else
                     (let outNames = map (makeNodeName k (planNodeId s)) [0..<length colNameList];
                          assignments = map_of (rev (zip outNames
                             (map (\<lambda>idx. kRegular (colNameList ! idx) (veloxTypeList ! idx))
                                [0..<length colNameList])));
                          outputRowType = ROW outNames veloxTypeList
                      in case virtual_table readRel of
                           Some vs \<Rightarrow>
                             (case toVeloxPlan_ReadRel_RowType k readRel outputRowType s of
                                Inl e \<Rightarrow> Inl e
                              | Inr (node, s') \<Rightarrow> Inr (node, splitInfo', s'))
                         | None \<Rightarrow>
                             (let (nodeId, s') = nextPlanNodeId s
                              in Inr (TableScanNode nodeId outputRowType tableHandle assignments,
                                      splitInfo', s'))))))"

text \<open>One round of the loop over the extracted key pairs: left key, then right key.\<close>

definition convertKeyPair :: "RowType \<Rightarrow> FieldReference \<times> FieldReference
      \<Rightarrow> error + (TypedExpr \<times> TypedExpr)" where
  "convertKeyPair inputType p =
     (case toVeloxExpr_FieldReference (fst p) inputType of
        Inl e \<Rightarrow> Inl e
      | Inr leftKey \<Rightarrow>
          (case toVeloxExpr_FieldReference (snd p) inputType of
             Inl e \<Rightarrow> Inl e
           | Inr rightKey \<Rightarrow> Inr (leftKey, rightKey)))"

definition toVeloxPlan_JoinRel :: "Collaborators \<Rightarrow> functionMap \<Rightarrow> Expression
      \<Rightarrow> Expression option \<Rightarrow> JoinRel_JoinType \<Rightarrow> PlanNode \<Rightarrow> PlanNode \<Rightarrow> ConverterState
      \<Rightarrow> error + (PlanNode \<times> ConverterState)" where
  "toVeloxPlan_JoinRel k fm expression post_join_filter jt leftNode rightNode s =
     (let unionType = unionWith (outputType leftNode) (outputType rightNode) in
      case fromProto k jt of
        Inl e \<Rightarrow> Inl e
      | Inr joinType \<Rightarrow>
          (let outputRowType =
                 (if joinType = kLeftSemi then outputType leftNode
                  else if joinType = kRightSemi then outputType rightNode
                  else unionType) in
           case extractJoinKeys fm expression of
             Inl e \<Rightarrow> Inl e
           | Inr (leftExprs, rightExprs) \<Rightarrow>
               if length leftExprs \<noteq> length rightExprs then Inl VeloxCheckFailed
               else
                 (case forEach (convertKeyPair unionType) (zip leftExprs rightExprs) of
                    Inl e \<Rightarrow> Inl e
                  | Inr keys \<Rightarrow>
                      (case (case post_join_filter of
                               None \<Rightarrow> Inr None
                             | Some f \<Rightarrow>
                                 (case toVeloxExpr k f unionType of
                                    Inl e \<Rightarrow> Inl e
                                  | Inr filterExpr \<Rightarrow> Inr (Some filterExpr))) of
                         Inl e \<Rightarrow> Inl e
                       | Inr joinFilter \<Rightarrow>
                           (let (nodeId, s') = nextPlanNodeId s
                            in Inr (HashJoinNode nodeId joinType (map fst keys) (map snd keys)
                                      joinFilter leftNode rightNode outputRowType, s'))))))"

text \<open>
  \<^verbatim>\<open>toVeloxPlan(Rel)\<close> with the per-kind overloads it dispatches to: each checks that
  its input is there, converts it, and builds its node.
\<close>

fun toVeloxPlan_Rel :: "Collaborators \<Rightarrow> functionMap \<Rightarrow> Rel \<Rightarrow> ConverterState
      \<Rightarrow> error + (PlanNode \<times> ConverterState)" where
  "toVeloxPlan_Rel k fm (AggregateRel common input groupings aggMeasures) s =
     (case input of
        None \<Rightarrow> Inl VeloxFail
      | Some rel \<Rightarrow>
          (case toVeloxPlan_Rel k fm rel s of
             Inl e \<Rightarrow> Inl e
           | Inr (childNode, s1) \<Rightarrow>
               toVeloxPlan_AggregateRel k fm groupings aggMeasures childNode s1))"
| "toVeloxPlan_Rel k fm (ProjectRel common input projectExprs) s =
     (case input of
        None \<Rightarrow> Inl VeloxFail
      | Some rel \<Rightarrow>
          (case toVeloxPlan_Rel k fm rel s of
             Inl e \<Rightarrow> Inl e
           | Inr (childNode, s1) \<Rightarrow> toVeloxPlan_ProjectRel k projectExprs childNode s1))"
| "toVeloxPlan_Rel k fm (FilterRel common input sExpr) s =
     (case input of
        None \<Rightarrow> Inl VeloxFail
      | Some rel \<Rightarrow>
          (case toVeloxPlan_Rel k fm rel s of
             Inl e \<Rightarrow> Inl e
           | Inr (childNode, s1) \<Rightarrow> toVeloxPlan_FilterRel k sExpr childNode s1))"
| "toVeloxPlan_Rel k fm (ReadRelNode readRel) s =
     (case toVeloxPlan_ReadRel k fm readRel SplitInfo_new s of
        Inl e \<Rightarrow> Inl e
      | Inr (planNode, splitInfo, s1) \<Rightarrow>
          Inr (planNode,
               s1\<lparr>splitInfoMap := (splitInfoMap s1)(node_id planNode \<mapsto> splitInfo)\<rparr>))"
| "toVeloxPlan_Rel k fm (JoinRel common l r expression post_join_filter jt) s =
     (case l of
        None \<Rightarrow> Inl VeloxFail
      | Some lrel \<Rightarrow>
          (case r of
             None \<Rightarrow> Inl VeloxFail
           | Some rrel \<Rightarrow>
               (case toVeloxPlan_Rel k fm lrel s of
                  Inl e \<Rightarrow> Inl e
                | Inr (leftNode, s1) \<Rightarrow>
                    (case toVeloxPlan_Rel k fm rrel s1 of
                       Inl e \<Rightarrow> Inl e
                     | Inr (rightNode, s2) \<Rightarrow>
                         toVeloxPlan_JoinRel k fm expression post_join_filter jt
                           leftNode rightNode s2))))"
| "toVeloxPlan_Rel k fm (FetchRel input fetch_offset fetch_count) s =
     (case input of
        None \<Rightarrow> Inl VeloxFail
      | Some rel \<Rightarrow>
          (case toVeloxPlan_Rel k fm rel s of
             Inl e \<Rightarrow> Inl e
           | Inr (childNode, s1) \<Rightarrow> toVeloxPlan_FetchRel fetch_offset fetch_count childNode s1))"
| "toVeloxPlan_Rel k fm (SortRel input sorts) s =
     (case input of
        None \<Rightarrow> Inl VeloxFail
      | Some rel \<Rightarrow>
          (case toVeloxPlan_Rel k fm rel s of
             Inl e \<Rightarrow> Inl e
           | Inr (childNode, s1) \<Rightarrow> toVeloxPlan_SortRel k sorts childNode s1))"
| "toVeloxPlan_Rel k fm REL_TYPE_NOT_SET s = Inl VeloxNYI"

definition toVeloxPlan_RelRoot :: "Collaborators \<Rightarrow> functionMap \<Rightarrow> Rel option
      \<Rightarrow> ConverterState \<Rightarrow> error + (PlanNode \<times> ConverterState)" where
  "toVeloxPlan_RelRoot k fm input s =
     (case input of None \<Rightarrow> Inl VeloxFail | Some rel \<Rightarrow> toVeloxPlan_Rel k fm rel s)"

fun constructFunctionMap :: "functionMap \<Rightarrow> SimpleExtensionDeclaration list \<Rightarrow> functionMap" where
  "constructFunctionMap fm [] = fm"
| "constructFunctionMap fm (kExtensionFunction anchor nm # rest) =
     constructFunctionMap (fm(anchor \<mapsto> nm)) rest"
| "constructFunctionMap fm (sExtension # rest) = constructFunctionMap fm rest"

fun checkTypeExtension :: "SimpleExtensionDeclaration list \<Rightarrow> bool" where
  "checkTypeExtension [] = True"
| "checkTypeExtension (kExtensionType nm # rest) =
     (if nm \<noteq> ''UNKNOWN'' then False else checkTypeExtension rest)"
| "checkTypeExtension (sExtension # rest) = checkTypeExtension rest"

text \<open>
  \<^verbatim>\<open>toVeloxPlan(Plan)\<close>: the function map of the converter is extended with the
  plan's declarations, then the single relation is converted.
\<close>

definition toVeloxPlan_Plan :: "Collaborators \<Rightarrow> functionMap \<Rightarrow> Plan \<Rightarrow> ConverterState
      \<Rightarrow> error + (PlanNode \<times> ConverterState)" where
  "toVeloxPlan_Plan k fm0 substraitPlan s =
     (if \<not> checkTypeExtension (extensions substraitPlan) then Inl VeloxCheckFailed
      else
        (let fm = constructFunctionMap fm0 (extensions substraitPlan) in
         case relations substraitPlan of
           [kRoot rootNames input] \<Rightarrow> toVeloxPlan_RelRoot k fm input s
         | [kRel rel] \<Rightarrow> toVeloxPlan_Rel k fm rel s
         | [PLAN_REL_NOT_SET] \<Rightarrow> Inl VeloxFail
         | _ \<Rightarrow> Inl VeloxCheckFailed))"

section \<open>Outbound conversion: the aggregation phase\<close>

text \<open>
  The \<^verbatim>\<open>default\<close> branch of the switch is not reachable: the four enumerators are all
  the steps there are.
\<close>

fun toAggregationPhase :: "Step \<Rightarrow> AggregationPhase" where
  "toAggregationPhase kPartial = AGGREGATION_PHASE_INITIAL_TO_INTERMEDIATE"
| "toAggregationPhase kIntermediate = AGGREGATION_PHASE_INTERMEDIATE_TO_INTERMEDIATE"
| "toAggregationPhase kSingle = AGGREGATION_PHASE_INITIAL_TO_RESULT"
| "toAggregationPhase kFinal = AGGREGATION_PHASE_INTERMEDIATE_TO_RESULT"

section \<open>The catalog loader\<close>

subsection \<open>Parsed documents\<close>

text \<open>
  A parsed YAML document, as the YAML library hands it over. Indexing a constant node
  with a string key (\<^verbatim>\<open>node["key"]\<close>) yields the value of the first entry with that key
  when the node is a map, an undefined node (\<open>None\<close>) when there is no such entry or the
  node is null or a sequence, and throws on a scalar. A null node is defined.
\<close>

datatype Node = YNull | YScalar string | YSequence "Node list" | YMap "(string \<times> Node) list"

fun subscript :: "Node \<Rightarrow> string \<Rightarrow> error + Node option" where
  "subscript (YMap entries) key = Inr (map_of entries key)"
| "subscript (YScalar s) key = Inl YamlBadSubscript"
| "subscript YNull key = Inr None"
| "subscript (YSequence ns) key = Inr None"

text \<open>
  \<^verbatim>\<open>node.as<T>()\<close> runs the \<^verbatim>\<open>decode\<close> of \<^verbatim>\<open>convert<T>\<close> on a default-constructed
  \<open>T\<close> and throws a bad-conversion exception when \<^verbatim>\<open>decode\<close> returns false. A
  \<^verbatim>\<open>decode\<close> is modelled as a function that fails (an exception thrown inside it),
  returns \<open>None\<close> (false) or returns the decoded value (true).
\<close>

definition as :: "(Node \<Rightarrow> error + 'a option) \<Rightarrow> Node \<Rightarrow> error + 'a" where
  "as decode node =
     (case decode node of
        Inl e \<Rightarrow> Inl e
      | Inr None \<Rightarrow> Inl YamlBadConversion
      | Inr (Some t) \<Rightarrow> Inr t)"

text \<open>\<^verbatim>\<open>node.as<std::string>()\<close>: the text of a scalar, \<^verbatim>\<open>"null"\<close> for a null node.\<close>

fun as_string :: "Node \<Rightarrow> error + string" where
  "as_string (YScalar s) = Inr s"
| "as_string YNull = Inr ''null''"
| "as_string (YSequence ns) = Inl YamlBadConversion"
| "as_string (YMap entries) = Inl YamlBadConversion"

subsection \<open>Catalog entries\<close>

text \<open>
  A decoded type expression is opaque here: \<^verbatim>\<open>SubstraitType::decode\<close> is not among the
  sources and is a parameter, as are reading a file into a document and the YAML
  library's conversion of a scalar to a boolean.
\<close>

datatype SubstraitType = DecodedType string

record LoaderCollaborators =
  LoadFile :: "string \<Rightarrow> error + Node"
  SubstraitType_decode :: "string \<Rightarrow> error + SubstraitType"
  as_bool :: "Node \<Rightarrow> error + bool"

datatype SubstraitFunctionArgument =
    SubstraitEnumArgument bool
  | SubstraitValueArgument SubstraitType
  | SubstraitTypeArgument

record SubstraitFunctionVariant =
  variant_name :: string
  variant_uri :: string
  variant_arguments :: "SubstraitFunctionArgument list"
  returnType :: SubstraitType
  intermediate :: "SubstraitType option"

record SubstraitTypeAnchor =
  anchor_name :: string
  anchor_uri :: string

record SubstraitExtension =
  scalarFunctionVariants :: "SubstraitFunctionVariant list"
  aggregateFunctionVariants :: "SubstraitFunctionVariant list"
  types :: "SubstraitTypeAnchor list"

subsection \<open>Decoding\<close>

text \<open>
  The loop \<^verbatim>\<open>while (std::getline(ss, lastReturnType, '\n')) {}\<close>: each successful call
  overwrites the string with the next line; the call that ends the loop leaves it alone
  when the stream is already at its end, and clears it when the text ended in a newline.
\<close>

definition lastLine :: "string \<Rightarrow> string" where
  "lastLine returnExpr =
     (if returnExpr \<noteq> [] \<and> last returnExpr = CHR 0x0A then []
      else rev (takeWhile (\<lambda>c. c \<noteq> CHR 0x0A) (rev returnExpr)))"

definition decode_SubstraitEnumArgument :: "LoaderCollaborators \<Rightarrow> Node
      \<Rightarrow> error + SubstraitFunctionArgument option" where
  "decode_SubstraitEnumArgument k node =
     (case subscript node ''options'' of
        Inl e \<Rightarrow> Inl e
      | Inr (Some (YSequence opts)) \<Rightarrow>
          (case subscript node ''required'' of
             Inl e \<Rightarrow> Inl e
           | Inr None \<Rightarrow> Inr (Some (SubstraitEnumArgument False))
           | Inr (Some required) \<Rightarrow>
               (case as_bool k required of
                  Inl e \<Rightarrow> Inl e
                | Inr b \<Rightarrow> Inr (Some (SubstraitEnumArgument b))))
      | Inr _ \<Rightarrow> Inr None)"

definition decode_SubstraitValueArgument :: "LoaderCollaborators \<Rightarrow> Node
      \<Rightarrow> error + SubstraitFunctionArgument option" where
  "decode_SubstraitValueArgument k node =
     (case subscript node ''value'' of
        Inl e \<Rightarrow> Inl e
      | Inr (Some (YScalar valueType)) \<Rightarrow>
          (case SubstraitType_decode k valueType of
             Inl e \<Rightarrow> Inl e
           | Inr t \<Rightarrow> Inr (Some (SubstraitValueArgument t)))
      | Inr _ \<Rightarrow> Inr None)"

definition decode_SubstraitTypeArgument :: "Node \<Rightarrow> error + SubstraitFunctionArgument option" where
  "decode_SubstraitTypeArgument node =
     (case subscript node ''type'' of
        Inl e \<Rightarrow> Inl e
      | Inr (Some t) \<Rightarrow> Inr (Some SubstraitTypeArgument)
      | Inr None \<Rightarrow> Inr None)"

text \<open>One round of the loop over \<^verbatim>\<open>args\<close> in \<^verbatim>\<open>decodeFunctionVariant\<close>.\<close>

definition decodeArgument :: "LoaderCollaborators \<Rightarrow> Node \<Rightarrow> error + SubstraitFunctionArgument" where
  "decodeArgument k arg =
     (case subscript arg ''options'' of
        Inl e \<Rightarrow> Inl e
      | Inr (Some opts) \<Rightarrow> as (decode_SubstraitEnumArgument k) arg
      | Inr None \<Rightarrow>
          (case subscript arg ''value'' of
             Inl e \<Rightarrow> Inl e
           | Inr (Some v) \<Rightarrow> as (decode_SubstraitValueArgument k) arg
           | Inr None \<Rightarrow> as decode_SubstraitTypeArgument arg))"

definition decodeFunctionVariant :: "LoaderCollaborators \<Rightarrow> Node
      \<Rightarrow> error + SubstraitFunctionVariant option" where
  "decodeFunctionVariant k node =
     (case subscript node ''return'' of
        Inl e \<Rightarrow> Inl e
      | Inr (Some (YScalar returnExpr)) \<Rightarrow>
          (case SubstraitType_decode k (lastLine returnExpr) of
             Inl e \<Rightarrow> Inl e
           | Inr rt \<Rightarrow>
               (case subscript node ''args'' of
                  Inl e \<Rightarrow> Inl e
                | Inr args \<Rightarrow>
                    (case (case args of
                             Some (YSequence argNodes) \<Rightarrow> forEach (decodeArgument k) argNodes
                           | _ \<Rightarrow> Inr []) of
                       Inl e \<Rightarrow> Inl e
                     | Inr decodedArgs \<Rightarrow>
                         Inr (Some \<lparr>variant_name = [], variant_uri = [],
                                    variant_arguments = decodedArgs, returnType = rt,
                                    intermediate = None\<rparr>))))
      | Inr _ \<Rightarrow> Inr None)"

definition decode_SubstraitScalarFunctionVariant :: "LoaderCollaborators \<Rightarrow> Node
      \<Rightarrow> error + SubstraitFunctionVariant option" where
  "decode_SubstraitScalarFunctionVariant k node = decodeFunctionVariant k node"

definition decode_SubstraitAggregateFunctionVariant :: "LoaderCollaborators \<Rightarrow> Node
      \<Rightarrow> error + SubstraitFunctionVariant option" where
  "decode_SubstraitAggregateFunctionVariant k node =
     (case decodeFunctionVariant k node of
        Inl e \<Rightarrow> Inl e
      | Inr None \<Rightarrow> Inr None
      | Inr (Some function) \<Rightarrow>
          (case subscript node ''intermediate'' of
             Inl e \<Rightarrow> Inl e
           | Inr None \<Rightarrow> Inr (Some function)
           | Inr (Some interm) \<Rightarrow>
               (case as_string interm of
                  Inl e \<Rightarrow> Inl e
                | Inr str \<Rightarrow>
                    (case SubstraitType_decode k str of
                       Inl e \<Rightarrow> Inl e
                     | Inr t \<Rightarrow> Inr (Some (function\<lparr>intermediate := Some t\<rparr>))))))"

text \<open>
  \<^verbatim>\<open>convert<SubstraitScalarFunction>\<close> and \<^verbatim>\<open>convert<SubstraitAggregateFunction>\<close>
  differ only in the variant they decode; the result is the list of implementations,
  each under the name of the function.
\<close>

definition decode_SubstraitFunction :: "(Node \<Rightarrow> error + SubstraitFunctionVariant option) \<Rightarrow> Node
      \<Rightarrow> error + SubstraitFunctionVariant list option" where
  "decode_SubstraitFunction decodeVariant node =
     (case subscript node ''name'' of
        Inl e \<Rightarrow> Inl e
      | Inr (Some (YScalar functionName)) \<Rightarrow>
          (case subscript node ''impls'' of
             Inl e \<Rightarrow> Inl e
           | Inr (Some (YSequence implNodes)) \<Rightarrow>
               (case forEach (as decodeVariant) implNodes of
                  Inl e \<Rightarrow> Inl e
                | Inr impls \<Rightarrow> Inr (Some (map (\<lambda>v. v\<lparr>variant_name := functionName\<rparr>) impls)))
           | Inr _ \<Rightarrow> Inr (Some []))
      | Inr _ \<Rightarrow> Inr None)"

definition decode_SubstraitScalarFunction :: "LoaderCollaborators \<Rightarrow> Node
      \<Rightarrow> error + SubstraitFunctionVariant list option" where
  "decode_SubstraitScalarFunction k = decode_SubstraitFunction (decode_SubstraitScalarFunctionVariant k)"

definition decode_SubstraitAggregateFunction :: "LoaderCollaborators \<Rightarrow> Node
      \<Rightarrow> error + SubstraitFunctionVariant list option" where
  "decode_SubstraitAggregateFunction k =
     decode_SubstraitFunction (decode_SubstraitAggregateFunctionVariant k)"

definition decode_SubstraitTypeAnchor :: "Node \<Rightarrow> error + SubstraitTypeAnchor option" where
  "decode_SubstraitTypeAnchor node =
     (case subscript node ''name'' of
        Inl e \<Rightarrow> Inl e
      | Inr (Some (YScalar nm)) \<Rightarrow> Inr (Some \<lparr>anchor_name = nm, anchor_uri = []\<rparr>)
      | Inr _ \<Rightarrow> Inr None)"

text \<open>The section of a document under a key, when it is there and a sequence.\<close>

definition sequenceAt :: "Node \<Rightarrow> string \<Rightarrow> error + Node list option" where
  "sequenceAt node key =
     (case subscript node key of
        Inl e \<Rightarrow> Inl e
      | Inr (Some (YSequence ns)) \<Rightarrow> Inr (Some ns)
      | Inr _ \<Rightarrow> Inr None)"

definition decode_SubstraitExtension :: "LoaderCollaborators \<Rightarrow> Node
      \<Rightarrow> error + SubstraitExtension option" where
  "decode_SubstraitExtension k node =
     (case sequenceAt node ''scalar_functions'' of
        Inl e \<Rightarrow> Inl e
      | Inr scalarFunctions \<Rightarrow>
          (case sequenceAt node ''aggregate_functions'' of
             Inl e \<Rightarrow> Inl e
           | Inr aggregateFunctions \<Rightarrow>
               if scalarFunctions = None \<and> aggregateFunctions = None then Inr None
               else
                 (case forEach (as (decode_SubstraitScalarFunction k))
                         (case scalarFunctions of None \<Rightarrow> [] | Some ns \<Rightarrow> ns) of
                    Inl e \<Rightarrow> Inl e
                  | Inr scalars \<Rightarrow>
                      (case forEach (as (decode_SubstraitAggregateFunction k))
                              (case aggregateFunctions of None \<Rightarrow> [] | Some ns \<Rightarrow> ns) of
                         Inl e \<Rightarrow> Inl e
                       | Inr aggregates \<Rightarrow>
                           (case sequenceAt node ''types'' of
                              Inl e \<Rightarrow> Inl e
                            | Inr typeNodes \<Rightarrow>
                                (case forEach (as decode_SubstraitTypeAnchor)
                                        (case typeNodes of None \<Rightarrow> [] | Some ns \<Rightarrow> ns) of
                                   Inl e \<Rightarrow> Inl e
                                 | Inr anchors \<Rightarrow>
                                     Inr (Some \<lparr>scalarFunctionVariants = concat scalars,
                                                aggregateFunctionVariants = concat aggregates,
                                                types = anchors\<rparr>)))))))"

subsection \<open>Loading and merging\<close>

text \<open>One round of the loop over the files: the entries of one source, tagged with its uri.\<close>

definition loadSource :: "LoaderCollaborators \<Rightarrow> string \<Rightarrow> error + SubstraitExtension" where
  "loadSource k extensionUri =
     (case LoadFile k extensionUri of
        Inl e \<Rightarrow> Inl e
      | Inr document \<Rightarrow>
          (case as (decode_SubstraitExtension k) document of
             Inl e \<Rightarrow> Inl e
           | Inr substraitExtension \<Rightarrow>
               Inr \<lparr>scalarFunctionVariants =
                      map (\<lambda>v. v\<lparr>variant_uri := extensionUri\<rparr>)
                        (scalarFunctionVariants substraitExtension),
                    aggregateFunctionVariants =
                      map (\<lambda>v. v\<lparr>variant_uri := extensionUri\<rparr>)
                        (aggregateFunctionVariants substraitExtension),
                    types = map (\<lambda>t. t\<lparr>anchor_uri := extensionUri\<rparr>)
                              (types substraitExtension)\<rparr>))"

fun loadExtension_loop :: "LoaderCollaborators \<Rightarrow> SubstraitExtension \<Rightarrow> string list
      \<Rightarrow> error + SubstraitExtension" where
  "loadExtension_loop k mergedExtension [] = Inr mergedExtension"
| "loadExtension_loop k mergedExtension (extensionUri # rest) =
     (case loadSource k extensionUri of
        Inl e \<Rightarrow> Inl e
      | Inr ext \<Rightarrow>
          loadExtension_loop k
            \<lparr>scalarFunctionVariants =
               scalarFunctionVariants mergedExtension @ scalarFunctionVariants ext,
             aggregateFunctionVariants =
               aggregateFunctionVariants mergedExtension @ aggregateFunctionVariants ext,
             types = types mergedExtension @ types ext\<rparr>
            rest)"

definition loadExtension :: "LoaderCollaborators \<Rightarrow> string list \<Rightarrow> error + SubstraitExtension" where
  "loadExtension k yamlExtensionFiles =
     loadExtension_loop k
       \<lparr>scalarFunctionVariants = [], aggregateFunctionVariants = [], types = []\<rparr>
       yamlExtensionFiles"


section \<open>Outbound conversion: call converters and plan converter\<close>

subsection \<open>Collaborators of the outbound converter\<close>

text \<open>
  The outbound converter calls into the expression converter, the type converter, the
  function lookups and the function collector, none of them among the sources. They are
  parameters. The function collector is mutable and shared by all of them, so each takes
  the collector's state \<open>'c\<close> and returns the new one; each may fail.
\<close>

record 'c OutboundCollaborators =
  toSubstraitExpr :: "TypedExpr \<Rightarrow> RowType \<Rightarrow> 'c \<Rightarrow> error + (Expression \<times> 'c)"
  toSubstraitLiteralFields :: "Vector \<Rightarrow> 'c \<Rightarrow> error + (Literal list \<times> 'c)"
  toSubstraitNamedStruct :: "RowType \<Rightarrow> 'c \<Rightarrow> error + (NamedStruct \<times> 'c)"
  toSubstraitType :: "Type \<Rightarrow> 'c \<Rightarrow> error + (SubstraitTypeMsg \<times> 'c)"
  lookupAggregateFunction :: "TypedExpr \<Rightarrow> SubstraitFunctionVariant option"
  lookupScalarFunction :: "Type \<times> TypedExpr list \<times> string \<Rightarrow> SubstraitFunctionVariant option"
  getFunctionReference :: "SubstraitFunctionVariant \<Rightarrow> 'c \<Rightarrow> nat \<times> 'c"
  addExtensionToPlan :: "'c \<Rightarrow> SimpleExtensionDeclaration list"

text \<open>A loop that converts every element in order, threads the state, stops at the first failure.\<close>

fun forEachState :: "('a \<Rightarrow> 'c \<Rightarrow> error + ('b \<times> 'c)) \<Rightarrow> 'a list \<Rightarrow> 'c
      \<Rightarrow> error + ('b list \<times> 'c)" where
  "forEachState f [] c = Inr ([], c)"
| "forEachState f (x # xs) c =
     (case f x c of
        Inl e \<Rightarrow> Inl e
      | Inr (y, c1) \<Rightarrow>
          (case forEachState f xs c1 of
             Inl e \<Rightarrow> Inl e
           | Inr (ys, c2) \<Rightarrow> Inr (y # ys, c2)))"

text \<open>\<^verbatim>\<open>v.at(i)\<close> on a vector: the element, or an out-of-range exception.\<close>

definition vector_at :: "'a list \<Rightarrow> nat \<Rightarrow> error + 'a" where
  "vector_at v i = (if i < length v then Inr (v ! i) else Inl IndexOutOfRange)"

subsection \<open>Call converters\<close>

text \<open>
  A call expression on its own (\<^verbatim>\<open>CallTypedExpr\<close>): type, inputs, name. The top-level
  converter handed to a call converter is a function object of the caller.
\<close>

type_synonym CallExpr = "Type \<times> TypedExpr list \<times> string"

fun call_type :: "CallExpr \<Rightarrow> Type" where
  "call_type (t, args, nm) = t"

fun call_inputs :: "CallExpr \<Rightarrow> TypedExpr list" where
  "call_inputs (t, args, nm) = args"

fun call_name :: "CallExpr \<Rightarrow> string" where
  "call_name (t, args, nm) = nm"

type_synonym 'c SubstraitExprConverter = "TypedExpr \<Rightarrow> 'c \<Rightarrow> error + (Expression \<times> 'c)"

text \<open>
  The loop \<^verbatim>\<open>for (int i = 0; i < last; i += 2)\<close> of the if/then converter. The
  counter is an \<^verbatim>\<open>int\<close> compared with an unsigned size; the model counts in natural
  numbers, which is the same for every argument list of fewer than \<open>2 ^ 31\<close> elements.
\<close>

function ifThenLoop :: "'c SubstraitExprConverter \<Rightarrow> TypedExpr list \<Rightarrow> nat \<Rightarrow> nat
      \<Rightarrow> (Expression \<times> Expression) list \<Rightarrow> 'c
      \<Rightarrow> error + ((Expression \<times> Expression) list \<times> 'c)" where
  "ifThenLoop topLevelConverter callInputs i lastIndex ifClauses c =
     (if i < lastIndex then
        (case vector_at callInputs i of
           Inl e \<Rightarrow> Inl e
         | Inr ifArg \<Rightarrow>
             (case topLevelConverter ifArg c of
                Inl e \<Rightarrow> Inl e
              | Inr (ifExpr, c1) \<Rightarrow>
                  (case vector_at callInputs (i + 1) of
                     Inl e \<Rightarrow> Inl e
                   | Inr thenArg \<Rightarrow>
                       (case topLevelConverter thenArg c1 of
                          Inl e \<Rightarrow> Inl e
                        | Inr (thenExpr, c2) \<Rightarrow>
                            ifThenLoop topLevelConverter callInputs (i + 2) lastIndex
                              (ifClauses @ [(ifExpr, thenExpr)]) c2))))
      else Inr (ifClauses, c))"
  by pat_completeness auto
termination
  by (relation "measure (\<lambda>(conv, callInputs, i, lastIndex, ifClauses, c). lastIndex - i)") auto

definition VeloxToSubstraitIfThenConverter_convert :: "'c SubstraitExprConverter \<Rightarrow> CallExpr
      \<Rightarrow> 'c \<Rightarrow> error + (Expression option \<times> 'c)" where
  "VeloxToSubstraitIfThenConverter_convert topLevelConverter callTypeExpr c =
     (if call_name callTypeExpr \<noteq> ''if'' then Inr (None, c)
      else if length (call_inputs callTypeExpr) mod 2 \<noteq> 1 then Inl VeloxNYI
      else
        (let lastIndex = length (call_inputs callTypeExpr) - 1 in
         case ifThenLoop topLevelConverter (call_inputs callTypeExpr) 0 lastIndex [] c of
           Inl e \<Rightarrow> Inl e
         | Inr (ifClauses, c1) \<Rightarrow>
             (case vector_at (call_inputs callTypeExpr) lastIndex of
                Inl e \<Rightarrow> Inl e
              | Inr elseArg \<Rightarrow>
                  (case topLevelConverter elseArg c1 of
                     Inl e \<Rightarrow> Inl e
                   | Inr (elseExpr, c2) \<Rightarrow> Inr (Some (kIfThen ifClauses (Some elseExpr)), c2)))))"

definition VeloxToSubstraitScalarFunctionConverter_convert :: "'c OutboundCollaborators
      \<Rightarrow> 'c SubstraitExprConverter \<Rightarrow> CallExpr \<Rightarrow> 'c \<Rightarrow> error + (Expression option \<times> 'c)" where
  "VeloxToSubstraitScalarFunctionConverter_convert k topLevelConverter callTypeExpr c =
     (case lookupScalarFunction k callTypeExpr of
        None \<Rightarrow> Inr (None, c)
      | Some scalarFunction \<Rightarrow>
          (let (functionReference, c1) = getFunctionReference k scalarFunction c in
           case forEachState topLevelConverter (call_inputs callTypeExpr) c1 of
             Inl e \<Rightarrow> Inl e
           | Inr (args, c2) \<Rightarrow>
               (case toSubstraitType k (call_type callTypeExpr) c2 of
                  Inl e \<Rightarrow> Inl e
                | Inr (substraitType, c3) \<Rightarrow>
                    Inr (Some (kScalarFunction functionReference args (Some substraitType)), c3))))"

subsection \<open>The plan converter\<close>

definition mergeRowTypes :: "RowType \<Rightarrow> RowType \<Rightarrow> RowType" where
  "mergeRowTypes leftRowType rightRowType =
     ROW (names leftRowType @ names rightRowType) (children leftRowType @ children rightRowType)"

fun isInnerJoin :: "JoinType \<Rightarrow> bool" where
  "isInnerJoin kInner = True"
| "isInnerJoin jt = False"

definition checkForSupportJoinType :: "JoinType \<Rightarrow> bool" where
  "checkForSupportJoinType jt = isInnerJoin jt"

text \<open>
  \<^verbatim>\<open>toSubstrait(ValuesNode, ReadRel)\<close>: one literal struct per row vector, filled by the
  expression converter column by column, then the schema.
\<close>

definition toSubstrait_ValuesNode :: "'c OutboundCollaborators \<Rightarrow> RowVector list \<Rightarrow> RowType
      \<Rightarrow> 'c \<Rightarrow> error + (ReadRel \<times> 'c)" where
  "toSubstrait_ValuesNode k rowVectors outputRowType c =
     (case forEachState
             (\<lambda>rowVector c0.
                case forEachState (toSubstraitLiteralFields k) (row_children rowVector) c0 of
                  Inl e \<Rightarrow> Inl e
                | Inr (columns, c1) \<Rightarrow> Inr (concat columns, c1))
             rowVectors c of
        Inl e \<Rightarrow> Inl e
      | Inr (literalStructs, c1) \<Rightarrow>
          (case toSubstraitNamedStruct k outputRowType c1 of
             Inl e \<Rightarrow> Inl e
           | Inr (schema, c2) \<Rightarrow>
               Inr (\<lparr>read_common = Some kDirect, base_schema = Some schema,
                     local_files = None, read_filter = None,
                     virtual_table = Some literalStructs\<rparr>, c2)))"

text \<open>
  One round of the loop over the aggregates: the mask is read with \<^verbatim>\<open>at\<close>, the filter
  message of the measure is created in any case and filled when the mask is there.
\<close>

definition toSubstrait_measure :: "'c OutboundCollaborators \<Rightarrow> RowType \<Rightarrow> Step
      \<Rightarrow> TypedExpr option list \<Rightarrow> TypedExpr list \<Rightarrow> nat \<Rightarrow> 'c \<Rightarrow> error + (Measure \<times> 'c)" where
  "toSubstrait_measure k inputType step aggregateMasks aggregates i c =
     (case vector_at aggregateMasks i of
        Inl e \<Rightarrow> Inl e
      | Inr aggMaskExpr \<Rightarrow>
          (case (case aggMaskExpr of
                   None \<Rightarrow> Inr (REX_TYPE_NOT_SET, c)
                 | Some maskExpr \<Rightarrow> toSubstraitExpr k maskExpr inputType c) of
             Inl e \<Rightarrow> Inl e
           | Inr (aggFilter, c1) \<Rightarrow>
               (case vector_at aggregates i of
                  Inl e \<Rightarrow> Inl e
                | Inr aggregatesExpr \<Rightarrow>
                    (case forEachState
                            (\<lambda>expr c0.
                               case expr of
                                 CallTypedExpr t args nm \<Rightarrow> Inl VeloxNYI
                               | _ \<Rightarrow> toSubstraitExpr k expr inputType c0)
                            (case aggregatesExpr of
                               CallTypedExpr t args nm \<Rightarrow> args
                             | _ \<Rightarrow> [])
                            c1 of
                       Inl e \<Rightarrow> Inl e
                     | Inr (aggArgs, c2) \<Rightarrow>
                         (case lookupAggregateFunction k aggregatesExpr of
                            None \<Rightarrow> Inl VeloxNYI
                          | Some variant \<Rightarrow>
                              (let (functionReference, c3) = getFunctionReference k variant c2 in
                               case toSubstraitType k (type_of aggregatesExpr) c3 of
                                 Inl e \<Rightarrow> Inl e
                               | Inr (substraitType, c4) \<Rightarrow>
                                   Inr (\<lparr>measure_fn =
                                          \<lparr>agg_function_reference = functionReference,
                                           agg_arguments = aggArgs,
                                           phase = toAggregationPhase step,
                                           agg_output_type = substraitType\<rparr>,
                                        measure_filter = Some aggFilter\<rparr>, c4)))))))"

definition toSubstrait_AggregationNode :: "'c OutboundCollaborators \<Rightarrow> Step \<Rightarrow> TypedExpr list
      \<Rightarrow> TypedExpr list \<Rightarrow> TypedExpr option list \<Rightarrow> RowType \<Rightarrow> Rel \<Rightarrow> 'c
      \<Rightarrow> error + (Rel \<times> 'c)" where
  "toSubstrait_AggregationNode k step groupingKeys aggregates aggregateMasks inputType input c =
     (case forEachState (\<lambda>key. toSubstraitExpr k key inputType) groupingKeys c of
        Inl e \<Rightarrow> Inl e
      | Inr (groupingExprs, c1) \<Rightarrow>
          if length aggregates < length aggregateMasks then Inl VeloxCheckFailed
          else
            (case forEachState (toSubstrait_measure k inputType step aggregateMasks aggregates)
                    [0..<length aggregates] c1 of
               Inl e \<Rightarrow> Inl e
             | Inr (aggMeasures, c2) \<Rightarrow>
                 Inr (AggregateRel (Some kDirect) (Some input) [groupingExprs] aggMeasures, c2)))"

text \<open>
  \<^verbatim>\<open>toSubstrait(AbstractJoinNode, JoinRel)\<close> after the check of the join type and the
  conversion of the two sources. The test for an inner join that opens the last block
  is true here: the check above it has passed.
\<close>

definition toSubstrait_JoinNode :: "'c OutboundCollaborators \<Rightarrow> TypedExpr list \<Rightarrow> TypedExpr list
      \<Rightarrow> TypedExpr option \<Rightarrow> RowType \<Rightarrow> RowType \<Rightarrow> Rel \<Rightarrow> Rel \<Rightarrow> 'c
      \<Rightarrow> error + (Rel \<times> 'c)" where
  "toSubstrait_JoinNode k leftKeys rightKeys joinFilter leftType rightType leftRel rightRel c =
     (case forEach (\<lambda>i. case vector_at leftKeys i of
                          Inl e \<Rightarrow> Inl e
                        | Inr l \<Rightarrow>
                            (case vector_at rightKeys i of
                               Inl e \<Rightarrow> Inl e
                             | Inr r \<Rightarrow> Inr (CallTypedExpr BOOLEAN [l, r] ''eq'')))
             [0..<length leftKeys] of
        Inl e \<Rightarrow> Inl e
      | Inr equalities \<Rightarrow>
          (let joinCondition =
                 equalities @ (case joinFilter of None \<Rightarrow> [] | Some f \<Rightarrow> [f]) in
           case (if length joinCondition = 1 then vector_at joinCondition 0
                 else Inr (CallTypedExpr BOOLEAN joinCondition ''and'')) of
             Inl e \<Rightarrow> Inl e
           | Inr joinConditionExpr \<Rightarrow>
               (case toSubstraitExpr k joinConditionExpr (mergeRowTypes leftType rightType) c of
                  Inl e \<Rightarrow> Inl e
                | Inr (expression, c1) \<Rightarrow>
                    Inr (JoinRel (Some kDirect) (Some leftRel) (Some rightRel) expression None
                           JOIN_TYPE_INNER, c1))))"

text \<open>
  \<^verbatim>\<open>toSubstrait(PlanNodePtr, Rel*)\<close> with the overloads it dispatches to. The relation
  it is given is a fresh message; a node of none of the five kinds tested leaves it as it
  is and returns. Every node of the model has the number of sources its overload checks.
\<close>

fun toSubstrait_PlanNode :: "'c OutboundCollaborators \<Rightarrow> PlanNode \<Rightarrow> 'c \<Rightarrow> error + (Rel \<times> 'c)" where
  "toSubstrait_PlanNode k (FilterNode i filterCondition source) c =
     (case toSubstrait_PlanNode k source c of
        Inl e \<Rightarrow> Inl e
      | Inr (filterInput, c1) \<Rightarrow>
          (case toSubstraitExpr k filterCondition (outputType source) c1 of
             Inl e \<Rightarrow> Inl e
           | Inr (cond, c2) \<Rightarrow> Inr (FilterRel (Some kDirect) (Some filterInput) cond, c2)))"
| "toSubstrait_PlanNode k (ValuesNode i rowVectors) c =
     (case toSubstrait_ValuesNode k rowVectors (outputType (ValuesNode i rowVectors)) c of
        Inl e \<Rightarrow> Inl e
      | Inr (readRel, c1) \<Rightarrow> Inr (ReadRelNode readRel, c1))"
| "toSubstrait_PlanNode k (ProjectNode i projectNames projections source) c =
     (case toSubstrait_PlanNode k source c of
        Inl e \<Rightarrow> Inl e
      | Inr (projectRelInput, c1) \<Rightarrow>
          (let inputType = outputType source;
               inputTypeSize = length (children inputType) in
           case forEachState (\<lambda>veloxExpr. toSubstraitExpr k veloxExpr inputType) projections c1 of
             Inl e \<Rightarrow> Inl e
           | Inr (exprs, c2) \<Rightarrow>
               Inr (ProjectRel
                      (Some (kEmit (map (\<lambda>j. inputTypeSize + j) [0..<length projections])))
                      (Some projectRelInput) exprs, c2)))"
| "toSubstrait_PlanNode k
     (AggregationNode i step groupingKeys preGroupedKeys aggregateNames aggregates aggregateMasks
        ignoreNullKeys source) c =
     (case toSubstrait_PlanNode k source c of
        Inl e \<Rightarrow> Inl e
      | Inr (input, c1) \<Rightarrow>
          toSubstrait_AggregationNode k step groupingKeys aggregates aggregateMasks
            (outputType source) input c1)"
| "toSubstrait_PlanNode k (HashJoinNode i jt leftKeys rightKeys joinFilter l r t) c =
     (if \<not> checkForSupportJoinType jt then Inl VeloxUnsupported
      else
        (case toSubstrait_PlanNode k l c of
           Inl e \<Rightarrow> Inl e
         | Inr (leftRel, c1) \<Rightarrow>
             (case toSubstrait_PlanNode k r c1 of
                Inl e \<Rightarrow> Inl e
              | Inr (rightRel, c2) \<Rightarrow>
                  toSubstrait_JoinNode k leftKeys rightKeys joinFilter (outputType l)
                    (outputType r) leftRel rightRel c2)))"
| "toSubstrait_PlanNode k (MergeJoinNode i jt leftKeys rightKeys joinFilter l r t) c =
     (if \<not> checkForSupportJoinType jt then Inl VeloxUnsupported
      else
        (case toSubstrait_PlanNode k l c of
           Inl e \<Rightarrow> Inl e
         | Inr (leftRel, c1) \<Rightarrow>
             (case toSubstrait_PlanNode k r c1 of
                Inl e \<Rightarrow> Inl e
              | Inr (rightRel, c2) \<Rightarrow>
                  toSubstrait_JoinNode k leftKeys rightKeys joinFilter (outputType l)
                    (outputType r) leftRel rightRel c2)))"
| "toSubstrait_PlanNode k (OrderByNode i sortingKeys sortingOrders isPartial source) c =
     Inr (REL_TYPE_NOT_SET, c)"
| "toSubstrait_PlanNode k (LimitNode i limitOffset limitCount isPartial source) c =
     Inr (REL_TYPE_NOT_SET, c)"
| "toSubstrait_PlanNode k (TableScanNode i t tableHandle assignments) c =
     Inr (REL_TYPE_NOT_SET, c)"

text \<open>
  \<^verbatim>\<open>toSubstrait(arena, plan)\<close>: the root relation, then the extensions collected on the
  way, then the output names of the plan.
\<close>

definition toSubstrait_Plan :: "'c OutboundCollaborators \<Rightarrow> PlanNode \<Rightarrow> 'c \<Rightarrow> error + (Plan \<times> 'c)" where
  "toSubstrait_Plan k plan c =
     (case toSubstrait_PlanNode k plan c of
        Inl e \<Rightarrow> Inl e
      | Inr (rel, c1) \<Rightarrow>
          Inr (\<lparr>extensions = addExtensionToPlan k c1,
                relations = [kRoot (names (outputType plan)) (Some rel)]\<rparr>, c1))"


section \<open>Concrete instances used to evaluate the converters\<close>

text \<open>
  A small instance of the collaborators: expressions other than field references and
  literals are not supported, a literal becomes a constant of its kind, function anchors
  resolve through the function map, node names tell the first two columns apart.
\<close>

definition exampleLiteral :: "Literal \<Rightarrow> error + TypedExpr" where
  "exampleLiteral l =
     (case l of
        kBoolean b \<Rightarrow> Inr (ConstantTypedExpr BOOLEAN (Some (VBool b)))
      | kI32 i \<Rightarrow> Inr (ConstantTypedExpr INTEGER (Some (VInt i)))
      | kI64 i \<Rightarrow> Inr (ConstantTypedExpr BIGINT (Some (VInt i)))
      | kFp64 d \<Rightarrow> Inr (ConstantTypedExpr DOUBLE (Some (VDouble d)))
      | kString str \<Rightarrow> Inr (ConstantTypedExpr VARCHAR (Some (VString str)))
      | kNull \<Rightarrow> Inr (ConstantTypedExpr UNKNOWN (Some VNull))
      | LITERAL_TYPE_NOT_SET \<Rightarrow> Inl VeloxNYI)"

definition exampleCollaborators :: Collaborators where
  "exampleCollaborators =
     \<lparr>toVeloxExpr = (\<lambda>e t. case e of
                         kSelection f \<Rightarrow> toVeloxExpr_FieldReference f t
                       | kLiteral l \<Rightarrow> exampleLiteral l
                       | _ \<Rightarrow> Inl VeloxNYI),
      toVeloxExpr_Literal = exampleLiteral,
      findVeloxFunction = findFunctionSpec,
      toVeloxType = (\<lambda>t. case t of
                         SBool \<Rightarrow> Inr BOOLEAN | SI32 \<Rightarrow> Inr INTEGER | SI64 \<Rightarrow> Inr BIGINT
                       | SFp64 \<Rightarrow> Inr DOUBLE | SString \<Rightarrow> Inr VARCHAR
                       | SUserDefined n \<Rightarrow> Inr UNKNOWN),
      makeNodeName = (\<lambda>node col. if col = 0 then ''c0'' else if col = 1 then ''c1''
                         else ''cN''),
      fromProto = (\<lambda>t. case t of
                       JOIN_TYPE_INNER \<Rightarrow> Inr kInner | JOIN_TYPE_OUTER \<Rightarrow> Inr kFull
                     | JOIN_TYPE_LEFT \<Rightarrow> Inr kLeft | JOIN_TYPE_RIGHT \<Rightarrow> Inr kRight
                     | JOIN_TYPE_SEMI \<Rightarrow> Inr kLeftSemi | JOIN_TYPE_ANTI \<Rightarrow> Inr kAnti
                     | _ \<Rightarrow> Inl VeloxUnsupported),
      setVectorFromVariants = (\<lambda>t vs. Inr (FlatVector t vs))\<rparr>"

definition emptyState :: ConverterState where
  "emptyState = \<lparr>planNodeId = 0, splitInfoMap = Map.empty\<rparr>"

text \<open>A read of literal data: two columns, one batch of two rows, stored column by column.\<close>

definition exampleRead :: ReadRel where
  "exampleRead =
     \<lparr>read_common = None,
      base_schema = Some \<lparr>struct_names = [''a'', ''b''], struct_types = [SI64, SFp64]\<rparr>,
      local_files = None,
      read_filter = None,
      virtual_table = Some [[kI64 1, kI64 2, kFp64 3, kFp64 4]]\<rparr>"

definition exampleMeasure :: Measure where
  "exampleMeasure =
     \<lparr>measure_fn = \<lparr>agg_function_reference = 9, agg_arguments = [],
                    phase = AGGREGATION_PHASE_INTERMEDIATE_TO_RESULT, agg_output_type = SI64\<rparr>,
      measure_filter = None\<rparr>"

text \<open>The same read with a batch of three fields for two columns.\<close>

definition inexactRead :: ReadRel where
  "inexactRead = exampleRead\<lparr>virtual_table := Some [[kI64 1, kI64 2, kI64 3]]\<rparr>"

text \<open>Joins of the example read with itself on the first column of each side.\<close>

definition fieldRef :: "int \<Rightarrow> Expression" where
  "fieldRef i = kSelection (kDirectReference (kStructField i))"

definition exampleJoin :: "JoinRel_JoinType \<Rightarrow> Rel" where
  "exampleJoin jt =
     JoinRel None (Some (ReadRelNode exampleRead)) (Some (ReadRelNode exampleRead))
       (kScalarFunction 2 [fieldRef 0, fieldRef 2] None) None jt"

definition exampleFunctionMap :: functionMap where
  "exampleFunctionMap = [0 \<mapsto> ''and'', 2 \<mapsto> ''eq'', 3 \<mapsto> ''or'', 4 \<mapsto> ''gte'', 5 \<mapsto> ''lt'',
     6 \<mapsto> ''is_not_null'', 7 \<mapsto> ''gt'', 8 \<mapsto> ''lte'', 9 \<mapsto> ''sum'']"

text \<open>Aggregations over the example read: one grouping expression, one measure.\<close>

definition exampleAggregate :: "Expression \<Rightarrow> Measure list \<Rightarrow> Rel" where
  "exampleAggregate grouping ms = AggregateRel None (Some (ReadRelNode exampleRead)) [[grouping]] ms"









text \<open>
  Two catalog sources for the function \<^verbatim>\<open>add\<close>: one with a single complete
  implementation, one with the same implementation after an implementation that has no
  return type.
\<close>

definition completeImpl :: Node where
  "completeImpl =
     YMap [(''args'', YSequence [YMap [(''value'', YScalar ''i32'')],
                                  YMap [(''value'', YScalar ''i32'')]]),
           (''return'', YScalar ''i32'')]"

definition implWithoutReturn :: Node where
  "implWithoutReturn =
     YMap [(''args'', YSequence [YMap [(''value'', YScalar ''i64'')],
                                  YMap [(''value'', YScalar ''i64'')]])]"

definition catalogOf :: "Node list \<Rightarrow> Node" where
  "catalogOf impls =
     YMap [(''scalar_functions'',
            YSequence [YMap [(''name'', YScalar ''add''), (''impls'', YSequence impls)]])]"

definition exampleLoader :: LoaderCollaborators where
  "exampleLoader =
     \<lparr>LoadFile = (\<lambda>uri. if uri = ''good.yaml'' then Inr (catalogOf [completeImpl])
                       else if uri = ''bad.yaml''
                         then Inr (catalogOf [implWithoutReturn, completeImpl])
                       else Inl YamlBadFile),
      SubstraitType_decode = (\<lambda>s. Inr (DecodedType s)),
      as_bool = (\<lambda>n. if n = YScalar ''true'' then Inr True
                     else if n = YScalar ''false'' then Inr False
                     else Inl YamlBadConversion)\<rparr>"

text \<open>
  The condition/result pairs of a list of converted arguments, taken two by two from the
  front; a last element without a partner is left over.
\<close>

fun clausePairs :: "'a list \<Rightarrow> ('a \<times> 'a) list" where
  "clausePairs (a # b # rest) = (a, b) # clausePairs rest"
| "clausePairs [a] = []"
| "clausePairs [] = []"

text \<open>
  A top-level converter that keeps no state: field accesses become field references by
  column name length, constants become 64-bit literals, calls are not supported.
\<close>

definition exampleTopLevel :: "unit SubstraitExprConverter" where
  "exampleTopLevel expr c =
     (case expr of
        FieldAccessTypedExpr t nm \<Rightarrow> Inr (fieldRef (int (length nm)), c)
      | ConstantTypedExpr t (Some (VInt i)) \<Rightarrow> Inr (kLiteral (kI64 i), c)
      | _ \<Rightarrow> Inl VeloxNYI)"

definition exampleIf :: CallExpr where
  "exampleIf =
     (BIGINT,
      [FieldAccessTypedExpr BOOLEAN ''b'', ConstantTypedExpr BIGINT (Some (VInt 1)),
       ConstantTypedExpr BIGINT (Some (VInt 2))],
      ''if'')"

section \<open>Properties\<close>

subsection \<open>Auxiliary facts\<close>

lemma forEach_length: "forEach f xs = Inr ys \<Longrightarrow> length ys = length xs"
  by (induction xs arbitrary: ys) (auto split: sum.splits)

lemma forEach_nth:
  "forEach f xs = Inr ys \<Longrightarrow> i < length xs \<Longrightarrow> f (xs ! i) = Inr (ys ! i)"
proof (induction xs arbitrary: ys i)
  case Nil
  then show ?case by simp
next
  case (Cons x xs)
  then show ?case by (cases i) (auto split: sum.splits)
qed

lemma forEach_fails: "x \<in> set xs \<Longrightarrow> f x = Inl e \<Longrightarrow> \<exists>e'. forEach f xs = Inl e'"
  by (induction xs) (auto split: sum.splits)

lemma forEach_succeeds:
  "(\<And>x. x \<in> set xs \<Longrightarrow> \<exists>y. f x = Inr y) \<Longrightarrow> \<exists>ys. forEach f xs = Inr ys"
proof (induction xs)
  case Nil
  then show ?case by simp
next
  case (Cons x xs)
  then obtain y where "f x = Inr y" by fastforce
  moreover from Cons obtain ys where "forEach f xs = Inr ys" by fastforce
  ultimately show ?case by simp
qed

lemma signed_take_bit_31_take_bit_32: "signed_take_bit 31 (take_bit 32 (x::int)) = signed_take_bit 31 x"
  by (simp add: signed_take_bit_eq_take_bit_shift take_bit_eq_mod mod_add_left_eq)

lemma int32_cast_value:
  "sint (ucast (w :: 64 word) :: 32 word) = (sint w + 2 ^ 31) mod 2 ^ 32 - 2 ^ 31"
proof -
  have "sint (ucast w :: 32 word) = signed_take_bit 31 (uint w)"
    by (simp add: sint_uint unsigned_ucast_eq signed_take_bit_31_take_bit_32)
  also have "\<dots> = signed_take_bit 31 (sint w)"
    by (simp add: sint_uint signed_take_bit_signed_take_bit)
  also have "\<dots> = (sint w + 2 ^ 31) mod 2 ^ 32 - 2 ^ 31"
    by (simp add: signed_take_bit_eq_take_bit_shift take_bit_eq_mod)
  finally show ?thesis .
qed

lemma int32_cast_preserves_iff:
  "(sint (ucast (w :: 64 word) :: 32 word) = sint w) = (- (2 ^ 31) \<le> sint w \<and> sint w < 2 ^ 31)"
proof (cases "- (2 ^ 31) \<le> sint w \<and> sint w < 2 ^ 31")
  case True
  then have "(sint w + 2 ^ 31) mod 2 ^ 32 = sint w + 2 ^ 31"
    by (intro mod_pos_pos_trivial) auto
  with True show ?thesis by (simp add: int32_cast_value)
next
  case False
  have "0 \<le> (sint w + 2 ^ 31) mod 2 ^ 32" "(sint w + 2 ^ 31) mod 2 ^ 32 < 2 ^ 32"
    by simp_all
  with False show ?thesis unfolding int32_cast_value by auto
qed

subsection \<open>C1: the aggregation-phase mapping\<close>

text \<open>
  C1. The mapping between native aggregation steps and interchange phases is a bijection.
  Outbound, Partial goes to initial-to-intermediate, Intermediate to
  intermediate-to-intermediate, Single to initial-to-result and Final to
  intermediate-to-result. A first measure that carries the outbound phase of a step is
  read back inbound as that step; and a first measure with any phase but the unspecified
  one is read inbound as a step whose outbound phase is the phase of the measure.
\<close>

theorem aggregation_phase_bijection:
  "toAggregationPhase kPartial = AGGREGATION_PHASE_INITIAL_TO_INTERMEDIATE
   \<and> toAggregationPhase kIntermediate = AGGREGATION_PHASE_INTERMEDIATE_TO_INTERMEDIATE
   \<and> toAggregationPhase kSingle = AGGREGATION_PHASE_INITIAL_TO_RESULT
   \<and> toAggregationPhase kFinal = AGGREGATION_PHASE_INTERMEDIATE_TO_RESULT
   \<and> toAggregationStep
         (m\<lparr>measure_fn := (measure_fn m)\<lparr>phase := toAggregationPhase st\<rparr>\<rparr> # ms) = Inr st
   \<and> (phase (measure_fn m') \<noteq> AGGREGATION_PHASE_UNSPECIFIED \<longrightarrow>
        (\<exists>st'. toAggregationStep (m' # ms') = Inr st'
               \<and> toAggregationPhase st' = phase (measure_fn m')))"
proof -
  have outbound_inbound:
    "toAggregationStep
       (m\<lparr>measure_fn := (measure_fn m)\<lparr>phase := toAggregationPhase st\<rparr>\<rparr> # ms) = Inr st"
    by (cases st) simp_all
  have inbound_outbound:
    "phase (measure_fn m') \<noteq> AGGREGATION_PHASE_UNSPECIFIED \<longrightarrow>
       (\<exists>st'. toAggregationStep (m' # ms') = Inr st'
              \<and> toAggregationPhase st' = phase (measure_fn m'))"
    by (cases "phase (measure_fn m')") simp_all
  from outbound_inbound inbound_outbound show ?thesis by simp
qed

theorem aggregation_phase_bijection_witness:
  "phase (measure_fn exampleMeasure) \<noteq> AGGREGATION_PHASE_UNSPECIFIED
   \<and> (\<exists>st'. toAggregationStep [exampleMeasure] = Inr st'
            \<and> toAggregationPhase st' = phase (measure_fn exampleMeasure))"
  using aggregation_phase_bijection [where m' = exampleMeasure and ms' = "[]"]
  by (simp add: exampleMeasure_def)

subsection \<open>Evaluating the example read\<close>

lemma exampleRead_converts_any:
  "toVeloxPlan_Rel exampleCollaborators fm (ReadRelNode exampleRead) s =
   Inr (ValuesNode (planNodeId s) [\<lparr>row_type = ROW [''c0'', ''c1''] [BIGINT, DOUBLE], row_size = 2,
          row_children = [FlatVector BIGINT [VInt 1, VInt 2],
                          FlatVector DOUBLE [VDouble 3, VDouble 4]]\<rparr>],
        s\<lparr>planNodeId := planNodeId s + 1,
          splitInfoMap := (splitInfoMap s)(planNodeId s \<mapsto> SplitInfo_new)\<rparr>)"
  by (simp add: exampleRead_def exampleCollaborators_def toVeloxPlan_ReadRel_def
        toVeloxPlan_ReadRel_RowType_def convertBatch_def convertColumn_def convertField_def
        fields_at_def exampleLiteral_def nextPlanNodeId_def upt_rec Let_def Suc_eq_plus1
        del: One_nat_def)

lemma exampleRead_converts:
  "toVeloxPlan_Rel exampleCollaborators Map.empty (ReadRelNode exampleRead) emptyState =
   Inr (ValuesNode 0 [\<lparr>row_type = ROW [''c0'', ''c1''] [BIGINT, DOUBLE], row_size = 2,
          row_children = [FlatVector BIGINT [VInt 1, VInt 2],
                          FlatVector DOUBLE [VDouble 3, VDouble 4]]\<rparr>],
        \<lparr>planNodeId = 1, splitInfoMap = [0 \<mapsto> SplitInfo_new]\<rparr>)"
  by (simp add: exampleRead_converts_any emptyState_def del: toVeloxPlan_Rel.simps(4))

subsection \<open>C10: offset and count of a limit\<close>

text \<open>
  C10. For an inbound fetch whose input converts, the native limit node holds as offset
  and count the 64-bit values of the interchange node cut down to signed 32-bit integers:
  the value modulo \<open>2 ^ 32\<close>, read in two's complement. The node is marked non-partial.
  The stored value equals the given one exactly when the given one lies in the signed
  32-bit range, so an offset or count of \<open>2 ^ 31\<close> or more is not preserved.
\<close>

theorem fetch_offset_count_truncated:
  assumes "toVeloxPlan_Rel k fm rel s = Inr (childNode, s1)"
  shows "\<exists>o32 c32.
           toVeloxPlan_Rel k fm (FetchRel (Some rel) off cnt) s =
             Inr (LimitNode (planNodeId s1) o32 c32 False childNode,
                  s1\<lparr>planNodeId := planNodeId s1 + 1\<rparr>)
           \<and> sint o32 = (sint off + 2 ^ 31) mod 2 ^ 32 - 2 ^ 31
           \<and> sint c32 = (sint cnt + 2 ^ 31) mod 2 ^ 32 - 2 ^ 31
           \<and> (sint o32 = sint off) = (- (2 ^ 31) \<le> sint off \<and> sint off < 2 ^ 31)
           \<and> (sint c32 = sint cnt) = (- (2 ^ 31) \<le> sint cnt \<and> sint cnt < 2 ^ 31)"
proof (intro exI conjI)
  show "toVeloxPlan_Rel k fm (FetchRel (Some rel) off cnt) s =
          Inr (LimitNode (planNodeId s1) (ucast off) (ucast cnt) False childNode,
               s1\<lparr>planNodeId := planNodeId s1 + 1\<rparr>)"
    using assms by (simp add: toVeloxPlan_FetchRel_def nextPlanNodeId_def)
  show "sint (ucast off :: 32 word) = (sint off + 2 ^ 31) mod 2 ^ 32 - 2 ^ 31"
    by (rule int32_cast_value)
  show "sint (ucast cnt :: 32 word) = (sint cnt + 2 ^ 31) mod 2 ^ 32 - 2 ^ 31"
    by (rule int32_cast_value)
  show "(sint (ucast off :: 32 word) = sint off) = (- (2 ^ 31) \<le> sint off \<and> sint off < 2 ^ 31)"
    by (rule int32_cast_preserves_iff)
  show "(sint (ucast cnt :: 32 word) = sint cnt) = (- (2 ^ 31) \<le> sint cnt \<and> sint cnt < 2 ^ 31)"
    by (rule int32_cast_preserves_iff)
qed

theorem fetch_offset_count_truncated_witness:
  "toVeloxPlan_Rel exampleCollaborators Map.empty (ReadRelNode exampleRead) emptyState =
     Inr (ValuesNode 0 [\<lparr>row_type = ROW [''c0'', ''c1''] [BIGINT, DOUBLE], row_size = 2,
            row_children = [FlatVector BIGINT [VInt 1, VInt 2],
                            FlatVector DOUBLE [VDouble 3, VDouble 4]]\<rparr>],
          \<lparr>planNodeId = 1, splitInfoMap = [0 \<mapsto> SplitInfo_new]\<rparr>)
   \<and> (\<exists>o32 c32 childNode s'.
         toVeloxPlan_Rel exampleCollaborators Map.empty
           (FetchRel (Some (ReadRelNode exampleRead)) 4294967301 2147483648) emptyState =
           Inr (LimitNode 1 o32 c32 False childNode, s')
         \<and> sint o32 = 5 \<and> sint c32 = - 2147483648)"
proof -
  note child = exampleRead_converts
  from fetch_offset_count_truncated [OF child, of 4294967301 2147483648]
  show ?thesis unfolding child by auto
qed

subsection \<open>C5: row count of a literal-data-backed read\<close>

lemma convertBatch_Inr:
  "convertBatch k rowType numColumns batchSize rowValue = Inr v \<Longrightarrow>
     length rowValue = batchSize * numColumns \<and> row_size v = batchSize"
  by (auto simp: convertBatch_def Let_def split: if_splits sum.splits)

lemma convertBatch_inexact:
  "\<not> numColumns dvd length rowValue \<Longrightarrow>
     convertBatch k rowType numColumns batchSize rowValue = Inl VeloxCheckFailed"
  by (auto simp: convertBatch_def Let_def)

lemma literal_read_success:
  assumes n: "children rowType \<noteq> []"
    and ok: "toVeloxPlan_ReadRel_RowType k readRel rowType s = Inr (node, s')"
  shows "\<exists>nodeId vectors.
           node = ValuesNode nodeId vectors
           \<and> length vectors = length (the (virtual_table readRel))
           \<and> (\<forall>i < length vectors.
                 length (children rowType) dvd length (the (virtual_table readRel) ! i)
                 \<and> row_size (vectors ! i) =
                     length (the (virtual_table readRel) ! i) div length (children rowType))"
proof -
  let ?n = "length (children rowType)"
  define vt where "vt = (case virtual_table readRel of None \<Rightarrow> [] | Some vs \<Rightarrow> vs)"
  define bs where "bs = length (last vt) div ?n"
  from ok have ne: "vt \<noteq> []"
    by (auto simp: toVeloxPlan_ReadRel_RowType_def vt_def Let_def split: if_splits)
  then have vt: "vt = the (virtual_table readRel)"
    by (auto simp: vt_def split: option.splits)
  from ok ne n obtain vectors where
    each: "forEach (convertBatch k rowType ?n bs) vt = Inr vectors"
    and node: "node = ValuesNode (planNodeId s) vectors"
    by (auto simp: toVeloxPlan_ReadRel_RowType_def vt_def bs_def Let_def nextPlanNodeId_def
        split: if_splits sum.splits)
  have len: "length vectors = length vt"
    using each by (rule forEach_length)
  have rows: "?n dvd length (vt ! i) \<and> row_size (vectors ! i) = length (vt ! i) div ?n"
    if "i < length vectors" for i
  proof -
    from that len have "convertBatch k rowType ?n bs (vt ! i) = Inr (vectors ! i)"
      using forEach_nth [OF each] by simp
    then have "length (vt ! i) = bs * ?n" "row_size (vectors ! i) = bs"
      by (auto dest: convertBatch_Inr)
    with n show ?thesis by simp
  qed
  from node len rows show ?thesis unfolding vt by blast
qed

lemma literal_read_unfold:
  assumes "virtual_table readRel = Some batches" and "batches \<noteq> []"
  shows "toVeloxPlan_ReadRel_RowType k readRel rowType s =
     (case forEach (convertBatch k rowType (length (children rowType))
                      (if length (children rowType) = 0 then 1
                       else length (last batches) div length (children rowType))) batches of
        Inl e \<Rightarrow> Inl e
      | Inr vectors \<Rightarrow>
          Inr (ValuesNode (planNodeId s) vectors, s\<lparr>planNodeId := planNodeId s + 1\<rparr>))"
  using assms
  by (simp add: toVeloxPlan_ReadRel_RowType_def Let_def nextPlanNodeId_def split: sum.splits)

lemma literal_read_failure:
  assumes vt: "virtual_table readRel = Some batches" and mem: "batch \<in> set batches"
    and inexact: "\<not> length (children rowType) dvd length batch"
  shows "\<exists>e. toVeloxPlan_ReadRel_RowType k readRel rowType s = Inl e"
proof -
  let ?n = "length (children rowType)"
  let ?bs = "if ?n = 0 then 1 else length (last batches) div ?n"
  from mem have ne: "batches \<noteq> []" by auto
  from inexact have bad: "convertBatch k rowType ?n ?bs batch = Inl VeloxCheckFailed"
    by (rule convertBatch_inexact)
  from forEach_fails [of batch batches "convertBatch k rowType ?n ?bs", OF mem bad]
  obtain e where "forEach (convertBatch k rowType ?n ?bs) batches = Inl e" ..
  then show ?thesis
    by (simp only: literal_read_unfold [OF vt ne] sum.case) blast
qed

text \<open>
  C5. For a literal-data-backed read with at least one column: when the conversion
  returns, it returns a values node with one batch per literal struct, the field count of
  every struct is a multiple of the column count, and the row count of every batch is the
  field count of its struct divided by the column count. When some struct has a field
  count that is not a multiple of the column count, the conversion fails.
\<close>

theorem literal_read_row_count:
  assumes "children rowType \<noteq> []"
  shows "(toVeloxPlan_ReadRel_RowType k readRel rowType s = Inr (node, s') \<longrightarrow>
           (\<exists>nodeId vectors.
              node = ValuesNode nodeId vectors
              \<and> length vectors = length (the (virtual_table readRel))
              \<and> (\<forall>i < length vectors.
                    length (children rowType) dvd length (the (virtual_table readRel) ! i)
                    \<and> row_size (vectors ! i) =
                        length (the (virtual_table readRel) ! i) div length (children rowType))))
       \<and> (virtual_table readRel' = Some batches \<and> batch \<in> set batches
            \<and> \<not> length (children rowType) dvd length batch \<longrightarrow>
           (\<exists>e. toVeloxPlan_ReadRel_RowType k' readRel' rowType s'' = Inl e))"
  using literal_read_success [OF assms] literal_read_failure by blast

lemma exampleRead_values:
  "toVeloxPlan_ReadRel_RowType exampleCollaborators exampleRead
     (ROW [''c0'', ''c1''] [BIGINT, DOUBLE]) emptyState =
   Inr (ValuesNode 0 [\<lparr>row_type = ROW [''c0'', ''c1''] [BIGINT, DOUBLE], row_size = 2,
          row_children = [FlatVector BIGINT [VInt 1, VInt 2],
                          FlatVector DOUBLE [VDouble 3, VDouble 4]]\<rparr>],
        \<lparr>planNodeId = 1, splitInfoMap = Map.empty\<rparr>)"
  by (simp add: exampleRead_def exampleCollaborators_def emptyState_def
        toVeloxPlan_ReadRel_RowType_def convertBatch_def convertColumn_def convertField_def
        fields_at_def exampleLiteral_def nextPlanNodeId_def upt_rec Let_def Suc_eq_plus1
        del: One_nat_def)


theorem literal_read_row_count_witness:
  "children (ROW [''c0'', ''c1''] [BIGINT, DOUBLE]) \<noteq> []
   \<and> (\<exists>node s'. toVeloxPlan_ReadRel_RowType exampleCollaborators exampleRead
         (ROW [''c0'', ''c1''] [BIGINT, DOUBLE]) emptyState = Inr (node, s')
       \<and> (\<exists>nodeId v. node = ValuesNode nodeId [v] \<and> row_size v = 4 div 2))
   \<and> virtual_table inexactRead = Some [[kI64 1, kI64 2, kI64 3]]
   \<and> \<not> length (children (ROW [''c0'', ''c1''] [BIGINT, DOUBLE])) dvd length [kI64 1, kI64 2, kI64 3]
   \<and> (\<exists>e. toVeloxPlan_ReadRel_RowType exampleCollaborators inexactRead
          (ROW [''c0'', ''c1''] [BIGINT, DOUBLE]) emptyState = Inl e)"
proof -
  have ne: "children (ROW [''c0'', ''c1''] [BIGINT, DOUBLE]) \<noteq> []" by simp
  have vt: "virtual_table inexactRead = Some [[kI64 1, kI64 2, kI64 3]]"
    by (simp add: inexactRead_def exampleRead_def)
  have odd: "\<not> length (children (ROW [''c0'', ''c1''] [BIGINT, DOUBLE])) dvd length [kI64 1, kI64 2, kI64 3]"
    by (simp add: Suc_eq_plus1 del: One_nat_def)
  from literal_read_row_count [OF ne, where readRel' = inexactRead
      and batches = "[[kI64 1, kI64 2, kI64 3]]" and batch = "[kI64 1, kI64 2, kI64 3]"
      and k' = exampleCollaborators and s'' = emptyState] vt odd
  have "\<exists>e. toVeloxPlan_ReadRel_RowType exampleCollaborators inexactRead
          (ROW [''c0'', ''c1''] [BIGINT, DOUBLE]) emptyState = Inl e"
    by simp
  with ne vt odd exampleRead_values show ?thesis by simp
qed

subsection \<open>C8: output schema of a join\<close>

lemma join_output_type:
  assumes "toVeloxPlan_JoinRel k fm expression pjf jt leftNode rightNode s = Inr (node, s')"
  shows "\<exists>joinType. fromProto k jt = Inr joinType
           \<and> outputType node =
               (if joinType = kLeftSemi then outputType leftNode
                else if joinType = kRightSemi then outputType rightNode
                else ROW (names (outputType leftNode) @ names (outputType rightNode))
                       (children (outputType leftNode) @ children (outputType rightNode)))"
proof -
  note defs = toVeloxPlan_JoinRel_def Let_def
  from assms obtain joinType where jt: "fromProto k jt = Inr joinType"
    by (cases "fromProto k jt") (simp_all add: defs)
  from assms jt obtain leftExprs rightExprs where
    ex: "extractJoinKeys fm expression = Inr (leftExprs, rightExprs)"
    by (cases "extractJoinKeys fm expression") (auto simp: defs)
  from assms jt ex have len: "length leftExprs = length rightExprs"
    by (simp add: defs split: if_splits)
  let ?u = "unionWith (outputType leftNode) (outputType rightNode)"
  from assms jt ex len obtain keys where
    ks: "forEach (convertKeyPair ?u) (zip leftExprs rightExprs) = Inr keys"
    by (cases "forEach (convertKeyPair ?u) (zip leftExprs rightExprs)") (auto simp: defs)
  define filterResult where "filterResult =
    (case pjf of None \<Rightarrow> Inr None
     | Some f \<Rightarrow> (case toVeloxExpr k f ?u of Inl e \<Rightarrow> Inl e
                  | Inr filterExpr \<Rightarrow> Inr (Some filterExpr)))"
  from assms jt ex len ks obtain joinFilter where fr: "filterResult = Inr joinFilter"
    by (cases filterResult) (auto simp: defs filterResult_def)
  from assms jt ex len ks fr [unfolded filterResult_def]
  have "node = HashJoinNode (planNodeId s) joinType (map fst keys) (map snd keys) joinFilter
                 leftNode rightNode
                 (if joinType = kLeftSemi then outputType leftNode
                  else if joinType = kRightSemi then outputType rightNode else ?u)"
    by (simp add: defs nextPlanNodeId_def)
  with jt show ?thesis by (simp add: unionWith_def)
qed

text \<open>
  C8. When an inbound join converts, both inputs were there and converted, the join type
  was mapped to a native one, and the output schema of the native join node is: the
  schema of the left input for a left-semi join, the schema of the right input for a
  right-semi join, and otherwise the columns of the left input followed by the columns of
  the right input.
\<close>

theorem join_output_schema:
  assumes "toVeloxPlan_Rel k fm (JoinRel common l r expression pjf jt) s = Inr (node, s')"
  shows "\<exists>lrel rrel leftNode s1 rightNode s2 joinType.
           l = Some lrel \<and> r = Some rrel
           \<and> toVeloxPlan_Rel k fm lrel s = Inr (leftNode, s1)
           \<and> toVeloxPlan_Rel k fm rrel s1 = Inr (rightNode, s2)
           \<and> fromProto k jt = Inr joinType
           \<and> outputType node =
               (if joinType = kLeftSemi then outputType leftNode
                else if joinType = kRightSemi then outputType rightNode
                else ROW (names (outputType leftNode) @ names (outputType rightNode))
                       (children (outputType leftNode) @ children (outputType rightNode)))"
proof -
  from assms obtain lrel rrel where lr: "l = Some lrel" "r = Some rrel"
    by (cases l; cases r) auto
  from assms lr obtain leftNode s1 where left: "toVeloxPlan_Rel k fm lrel s = Inr (leftNode, s1)"
    by (cases "toVeloxPlan_Rel k fm lrel s") auto
  from assms lr left obtain rightNode s2 where
    right: "toVeloxPlan_Rel k fm rrel s1 = Inr (rightNode, s2)"
    by (cases "toVeloxPlan_Rel k fm rrel s1") auto
  from assms lr left right
  have "toVeloxPlan_JoinRel k fm expression pjf jt leftNode rightNode s2 = Inr (node, s')"
    by simp
  from join_output_type [OF this] lr left right show ?thesis by blast
qed



lemma exampleJoin_keys:
  "extractJoinKeys exampleFunctionMap (kScalarFunction 2 [fieldRef 0, fieldRef 2] None) =
     Inr ([kDirectReference (kStructField 0)], [kDirectReference (kStructField 2)])"
  by (simp add: extractJoinKeys_def findFunctionSpec_def exampleFunctionMap_def fieldRef_def)

lemma exampleJoin_converts:
  assumes "(jt, joinType) = (JOIN_TYPE_INNER, kInner) \<or> (jt, joinType) = (JOIN_TYPE_SEMI, kLeftSemi)"
  shows "\<exists>leftNode rightNode s'.
     outputType leftNode = ROW [''c0'', ''c1''] [BIGINT, DOUBLE]
     \<and> outputType rightNode = ROW [''c0'', ''c1''] [BIGINT, DOUBLE]
     \<and> toVeloxPlan_Rel exampleCollaborators exampleFunctionMap (exampleJoin jt) emptyState =
         Inr (HashJoinNode 2 joinType [FieldAccessTypedExpr BIGINT ''c0'']
                [FieldAccessTypedExpr BIGINT ''c0''] None leftNode rightNode
                (if joinType = kLeftSemi then ROW [''c0'', ''c1''] [BIGINT, DOUBLE]
                 else ROW [''c0'', ''c1'', ''c0'', ''c1''] [BIGINT, DOUBLE, BIGINT, DOUBLE]), s')"
proof -
  from assms have fp: "fromProto exampleCollaborators jt = Inr joinType"
    by (auto simp: exampleCollaborators_def)
  from assms have semi: "joinType \<noteq> kRightSemi" by auto
  show ?thesis
    unfolding exampleJoin_def
    by (simp add: exampleRead_converts_any toVeloxPlan_JoinRel_def exampleJoin_keys fp semi
          convertKeyPair_def unionWith_def nextPlanNodeId_def emptyState_def
          del: toVeloxPlan_Rel.simps(4))
qed

theorem join_output_schema_witness:
  "(\<exists>node s'. toVeloxPlan_Rel exampleCollaborators exampleFunctionMap
        (exampleJoin JOIN_TYPE_INNER) emptyState = Inr (node, s')
      \<and> outputType node = ROW [''c0'', ''c1'', ''c0'', ''c1''] [BIGINT, DOUBLE, BIGINT, DOUBLE])
   \<and> (\<exists>node s'. toVeloxPlan_Rel exampleCollaborators exampleFunctionMap
        (exampleJoin JOIN_TYPE_SEMI) emptyState = Inr (node, s')
      \<and> outputType node = ROW [''c0'', ''c1''] [BIGINT, DOUBLE])"
proof -
  have out: "\<exists>node s'. toVeloxPlan_Rel exampleCollaborators exampleFunctionMap
        (exampleJoin jt) emptyState = Inr (node, s')
      \<and> outputType node =
          (if joinType = kLeftSemi then ROW [''c0'', ''c1''] [BIGINT, DOUBLE]
           else ROW [''c0'', ''c1'', ''c0'', ''c1''] [BIGINT, DOUBLE, BIGINT, DOUBLE])"
    if "(jt, joinType) = (JOIN_TYPE_INNER, kInner) \<or> (jt, joinType) = (JOIN_TYPE_SEMI, kLeftSemi)"
    for jt joinType
  proof -
    from exampleJoin_converts [OF that] obtain leftNode rightNode node s' where
      conv: "toVeloxPlan_Rel exampleCollaborators exampleFunctionMap (exampleJoin jt) emptyState =
               Inr (node, s')"
      by blast
    from that have fp: "fromProto exampleCollaborators jt = Inr joinType"
      by (auto simp: exampleCollaborators_def)
    from that have semi: "joinType \<noteq> kRightSemi" by auto
    from join_output_schema [OF conv [unfolded exampleJoin_def]]
    have "outputType node =
          (if joinType = kLeftSemi then ROW [''c0'', ''c1''] [BIGINT, DOUBLE]
           else ROW [''c0'', ''c1'', ''c0'', ''c1''] [BIGINT, DOUBLE, BIGINT, DOUBLE])"
      by (auto simp: exampleRead_converts_any fp semi simp del: toVeloxPlan_Rel.simps(4))
    with conv show ?thesis by blast
  qed
  from out [of JOIN_TYPE_INNER kInner] out [of JOIN_TYPE_SEMI kLeftSemi]
  show ?thesis by simp
qed

subsection \<open>C6: grouping expressions and step of an aggregation\<close>

lemma selection_not_field: "\<not> has_selection g \<Longrightarrow> selection g = REFERENCE_TYPE_NOT_SET"
  by (cases g) simp_all

lemma aggregate_grouping_not_field:
  assumes mem: "g \<in> set (concat groupings)" and nf: "\<not> has_selection g"
  shows "\<exists>e. toVeloxPlan_AggregateRel k fm groupings ms childNode s = Inl e"
proof -
  let ?conv = "\<lambda>groupingExpr. toVeloxExpr_FieldReference (selection groupingExpr) (outputType childNode)"
  from nf have "?conv g = Inl VeloxNYI"
    by (simp add: selection_not_field)
  from forEach_fails [of g "concat groupings" ?conv, OF mem this]
  obtain e where "forEach ?conv (concat groupings) = Inl e" ..
  then show ?thesis
    by (cases "toAggregationStep ms") (simp_all add: toVeloxPlan_AggregateRel_def Let_def)
qed

lemma toAggregationStep_Inr:
  assumes "toAggregationStep ms = Inr st"
  shows "(ms = [] \<longrightarrow> st = kSingle)
         \<and> (ms \<noteq> [] \<longrightarrow> toAggregationPhase st = phase (measure_fn (hd ms)))"
proof (cases ms)
  case Nil
  with assms show ?thesis by simp
next
  case (Cons m rest)
  with assms show ?thesis by (cases "phase (measure_fn m)") auto
qed

lemma aggregate_node_step:
  assumes "toVeloxPlan_AggregateRel k fm groupings ms childNode s = Inr (node, s')"
  shows "\<exists>aggStep keys nms aggs masks.
           node = AggregationNode (planNodeId s) aggStep keys [] nms aggs masks False childNode
           \<and> toAggregationStep ms = Inr aggStep"
proof -
  note defs = toVeloxPlan_AggregateRel_def Let_def
  let ?t = "outputType childNode"
  from assms obtain aggStep where st: "toAggregationStep ms = Inr aggStep"
    by (cases "toAggregationStep ms") (simp_all add: defs)
  from assms st obtain keys where
    ks: "forEach (\<lambda>groupingExpr. toVeloxExpr_FieldReference (selection groupingExpr) ?t)
           (concat groupings) = Inr keys"
    by (cases "forEach (\<lambda>groupingExpr. toVeloxExpr_FieldReference (selection groupingExpr) ?t)
           (concat groupings)") (simp_all add: defs)
  from assms st ks obtain converted where
    cs: "forEach (convertMeasure k fm ?t) ms = Inr converted"
    by (cases "forEach (convertMeasure k fm ?t) ms") (simp_all add: defs)
  from assms st ks cs show ?thesis
    by (auto simp add: defs nextPlanNodeId_def)
qed

text \<open>
  C6. An inbound aggregate with a grouping expression that is not a field reference
  fails. When an inbound aggregate converts, the step of the native aggregation node is
  Single if the aggregate has no measure, and otherwise the step whose interchange phase
  is the phase declared by the first measure.
\<close>

theorem aggregate_grouping_and_step:
  "(g \<in> set (concat groupings) \<and> \<not> has_selection g \<longrightarrow>
      (\<exists>e. toVeloxPlan_Rel k fm (AggregateRel common input groupings ms) s = Inl e))
   \<and> (toVeloxPlan_Rel k' fm' (AggregateRel common' input' groupings' ms') s' = Inr (node, s'') \<longrightarrow>
      (\<exists>nodeId aggStep keys pre nms aggs masks ign childNode.
          node = AggregationNode nodeId aggStep keys pre nms aggs masks ign childNode
          \<and> (ms' = [] \<longrightarrow> aggStep = kSingle)
          \<and> (ms' \<noteq> [] \<longrightarrow> toAggregationPhase aggStep = phase (measure_fn (hd ms')))))"
proof (intro conjI impI)
  assume "g \<in> set (concat groupings) \<and> \<not> has_selection g"
  then have bad: "\<exists>e. toVeloxPlan_AggregateRel k fm groupings ms childNode s1 = Inl e"
    for childNode s1
    using aggregate_grouping_not_field by blast
  show "\<exists>e. toVeloxPlan_Rel k fm (AggregateRel common input groupings ms) s = Inl e"
  proof (cases input)
    case None
    then show ?thesis by simp
  next
    case (Some rel)
    show ?thesis
    proof (cases "toVeloxPlan_Rel k fm rel s")
      case (Inl e)
      with Some show ?thesis by simp
    next
      case (Inr p)
      obtain childNode s1 where "p = (childNode, s1)" by (cases p)
      with Some Inr bad [of childNode s1] show ?thesis by simp
    qed
  qed
next
  assume ok: "toVeloxPlan_Rel k' fm' (AggregateRel common' input' groupings' ms') s' = Inr (node, s'')"
  then obtain rel where rel: "input' = Some rel" by (cases input') auto
  from ok rel obtain childNode s1 where
    child: "toVeloxPlan_Rel k' fm' rel s' = Inr (childNode, s1)"
    by (cases "toVeloxPlan_Rel k' fm' rel s'") auto
  from ok rel child
  have "toVeloxPlan_AggregateRel k' fm' groupings' ms' childNode s1 = Inr (node, s'')"
    by simp
  from aggregate_node_step [OF this] obtain aggStep keys nms aggs masks where
    node: "node = AggregationNode (planNodeId s1) aggStep keys [] nms aggs masks False childNode"
    and st: "toAggregationStep ms' = Inr aggStep"
    by blast
  from toAggregationStep_Inr [OF st] node
  show "\<exists>nodeId aggStep keys pre nms aggs masks ign childNode.
          node = AggregationNode nodeId aggStep keys pre nms aggs masks ign childNode
          \<and> (ms' = [] \<longrightarrow> aggStep = kSingle)
          \<and> (ms' \<noteq> [] \<longrightarrow> toAggregationPhase aggStep = phase (measure_fn (hd ms')))"
    by blast
qed

lemma exampleAggregate_converts:
  "\<exists>childNode s'. toVeloxPlan_Rel exampleCollaborators exampleFunctionMap
      (exampleAggregate (fieldRef 0) [exampleMeasure]) emptyState =
    Inr (AggregationNode 1 kFinal [FieldAccessTypedExpr BIGINT ''c0''] [] [''c1'']
           [CallTypedExpr BIGINT [] ''sum''] [] False childNode, s')"
proof -
  have child: "toVeloxPlan_Rel exampleCollaborators exampleFunctionMap (ReadRelNode exampleRead)
      emptyState = Inr (ValuesNode 0 [\<lparr>row_type = ROW [''c0'', ''c1''] [BIGINT, DOUBLE],
          row_size = 2,
          row_children = [FlatVector BIGINT [VInt 1, VInt 2],
                          FlatVector DOUBLE [VDouble 3, VDouble 4]]\<rparr>],
        \<lparr>planNodeId = 1, splitInfoMap = [0 \<mapsto> SplitInfo_new]\<rparr>)"
    by (simp add: exampleRead_converts_any emptyState_def del: toVeloxPlan_Rel.simps(4))
  show ?thesis
    apply (simp only: exampleAggregate_def toVeloxPlan_Rel.simps(1) child option.case sum.case
        prod.case)
    apply (simp add: toVeloxPlan_AggregateRel_def exampleMeasure_def
        convertMeasure_def fieldRef_def nextPlanNodeId_def
        exampleFunctionMap_def findFunctionSpec_def exampleCollaborators_def upt_rec)
    done
qed

theorem aggregate_grouping_and_step_witness:
  "kLiteral (kI64 1) \<in> set (concat [[kLiteral (kI64 1)]])
   \<and> \<not> has_selection (kLiteral (kI64 1))
   \<and> (\<exists>e. toVeloxPlan_Rel exampleCollaborators exampleFunctionMap
          (exampleAggregate (kLiteral (kI64 1)) [exampleMeasure]) emptyState = Inl e)
   \<and> (\<exists>node s'. toVeloxPlan_Rel exampleCollaborators exampleFunctionMap
          (exampleAggregate (fieldRef 0) [exampleMeasure]) emptyState = Inr (node, s')
        \<and> (\<exists>nodeId keys pre nms aggs masks ign childNode.
              node = AggregationNode nodeId kFinal keys pre nms aggs masks ign childNode))"
proof -
  note inst = aggregate_grouping_and_step
    [where g = "kLiteral (kI64 1)" and groupings = "[[kLiteral (kI64 1)]]"
       and k = exampleCollaborators and fm = exampleFunctionMap and common = None
       and input = "Some (ReadRelNode exampleRead)" and ms = "[exampleMeasure]"
       and s = emptyState
       and k' = exampleCollaborators and fm' = exampleFunctionMap and common' = None
       and input' = "Some (ReadRelNode exampleRead)" and groupings' = "[[fieldRef 0]]"
       and ms' = "[exampleMeasure]" and s' = emptyState]
  from exampleAggregate_converts obtain node s'' where
    conv: "toVeloxPlan_Rel exampleCollaborators exampleFunctionMap
      (exampleAggregate (fieldRef 0) [exampleMeasure]) emptyState = Inr (node, s'')"
    by blast
  from inst [of node s''] conv [unfolded exampleAggregate_def]
  have "\<exists>nodeId aggStep keys pre nms aggs masks ign childNode.
          node = AggregationNode nodeId aggStep keys pre nms aggs masks ign childNode
          \<and> toAggregationPhase aggStep = AGGREGATION_PHASE_INTERMEDIATE_TO_RESULT"
    by (simp add: exampleMeasure_def)
  then obtain nodeId aggStep keys pre nms aggs masks ign childNode where
    node: "node = AggregationNode nodeId aggStep keys pre nms aggs masks ign childNode"
    and ph: "toAggregationPhase aggStep = AGGREGATION_PHASE_INTERMEDIATE_TO_RESULT"
    by blast
  from ph have "aggStep = kFinal" by (cases aggStep) simp_all
  with node conv have second: "\<exists>node s'. toVeloxPlan_Rel exampleCollaborators exampleFunctionMap
          (exampleAggregate (fieldRef 0) [exampleMeasure]) emptyState = Inr (node, s')
        \<and> (\<exists>nodeId keys pre nms aggs masks ign childNode.
              node = AggregationNode nodeId kFinal keys pre nms aggs masks ign childNode)"
    by blast
  from inst have first: "\<exists>e. toVeloxPlan_Rel exampleCollaborators exampleFunctionMap
          (exampleAggregate (kLiteral (kI64 1)) [exampleMeasure]) emptyState = Inl e"
    unfolding exampleAggregate_def by simp
  from first second show ?thesis by simp
qed

subsection \<open>C3: join-key decomposition\<close>






subsection \<open>C2: range folding\<close>




























subsection \<open>C4: catalog entries without a required field\<close>

text \<open>
  A source whose only implementation of \<^verbatim>\<open>add\<close> is complete loads. The same source
  with one more implementation, which has no return type, parses as a document and does
  not load at all: \<^verbatim>\<open>decode\<close> returns false for the entry, and \<^verbatim>\<open>as\<close> turns that
  into a failure of the whole load. The entry is not skipped, and the complete
  implementation beside it is not loaded.
\<close>

theorem malformed_entry_skipped_counterexample:
  "loadExtension exampleLoader [''good.yaml''] =
     Inr \<lparr>scalarFunctionVariants =
            [\<lparr>variant_name = ''add'', variant_uri = ''good.yaml'',
              variant_arguments = [SubstraitValueArgument (DecodedType ''i32''),
                                   SubstraitValueArgument (DecodedType ''i32'')],
              returnType = DecodedType ''i32'', intermediate = None\<rparr>],
          aggregateFunctionVariants = [], types = []\<rparr>
   \<and> LoadFile exampleLoader ''bad.yaml'' = Inr (catalogOf [implWithoutReturn, completeImpl])
   \<and> loadExtension exampleLoader [''bad.yaml''] = Inl YamlBadConversion"
  by (simp add: loadExtension_def loadSource_def exampleLoader_def catalogOf_def
        completeImpl_def implWithoutReturn_def as_def decode_SubstraitExtension_def
        sequenceAt_def
        decode_SubstraitScalarFunction_def decode_SubstraitFunction_def
        decode_SubstraitScalarFunctionVariant_def decodeFunctionVariant_def decodeArgument_def
        decode_SubstraitValueArgument_def lastLine_def)


lemma variant_without_return:
  assumes "\<forall>s. subscript implNode ''return'' \<noteq> Inr (Some (YScalar s))"
  shows "decodeFunctionVariant k implNode = Inr None
         \<or> (\<exists>e. decodeFunctionVariant k implNode = Inl e)"
proof (cases "subscript implNode ''return''")
  case (Inl e)
  then show ?thesis by (simp add: decodeFunctionVariant_def)
next
  case (Inr r)
  show ?thesis
  proof (cases r)
    case None
    with Inr show ?thesis by (simp add: decodeFunctionVariant_def)
  next
    case (Some n)
    with Inr assms show ?thesis
      by (cases n) (simp_all add: decodeFunctionVariant_def)
  qed
qed

lemma scalar_variant_without_return:
  assumes "\<forall>s. subscript implNode ''return'' \<noteq> Inr (Some (YScalar s))"
  shows "\<exists>e. as (decode_SubstraitScalarFunctionVariant k) implNode = Inl e"
  using variant_without_return [OF assms, of k]
  by (auto simp: as_def decode_SubstraitScalarFunctionVariant_def)

lemma aggregate_variant_without_return:
  assumes "\<forall>s. subscript implNode ''return'' \<noteq> Inr (Some (YScalar s))"
  shows "\<exists>e. as (decode_SubstraitAggregateFunctionVariant k) implNode = Inl e"
  using variant_without_return [OF assms, of k]
  by (auto simp: as_def decode_SubstraitAggregateFunctionVariant_def)

lemma function_with_bad_impl:
  assumes impls: "subscript functionNode ''impls'' = Inr (Some (YSequence implNodes))"
    and mem: "implNode \<in> set implNodes"
    and bad: "\<exists>e. as decodeVariant implNode = Inl e"
  shows "\<exists>e. as (decode_SubstraitFunction decodeVariant) functionNode = Inl e"
proof -
  from bad obtain e where "as decodeVariant implNode = Inl e" ..
  from forEach_fails [of implNode implNodes "as decodeVariant", OF mem this]
  obtain e' where fails: "forEach (as decodeVariant) implNodes = Inl e'" ..
  show ?thesis
  proof (cases "subscript functionNode ''name''")
    case (Inl e)
    then show ?thesis by (simp add: as_def decode_SubstraitFunction_def)
  next
    case (Inr r)
    show ?thesis
    proof (cases r)
      case None
      with Inr show ?thesis by (simp add: as_def decode_SubstraitFunction_def)
    next
      case (Some n)
      with Inr impls fails show ?thesis
        by (cases n) (simp_all add: as_def decode_SubstraitFunction_def)
    qed
  qed
qed

lemma extension_with_bad_scalar_function:
  assumes sec: "subscript document ''scalar_functions'' = Inr (Some (YSequence functionNodes))"
    and mem: "functionNode \<in> set functionNodes"
    and bad: "\<exists>e. as (decode_SubstraitScalarFunction k) functionNode = Inl e"
  shows "\<exists>e. as (decode_SubstraitExtension k) document = Inl e"
proof -
  from bad obtain e where "as (decode_SubstraitScalarFunction k) functionNode = Inl e" ..
  from forEach_fails [of functionNode functionNodes "as (decode_SubstraitScalarFunction k)",
      OF mem this]
  obtain e' where fails: "forEach (as (decode_SubstraitScalarFunction k)) functionNodes = Inl e'" ..
  from sec have s: "sequenceAt document ''scalar_functions'' = Inr (Some functionNodes)"
    by (simp add: sequenceAt_def)
  show ?thesis
  proof (cases "sequenceAt document ''aggregate_functions''")
    case (Inl e)
    with s show ?thesis by (simp add: as_def decode_SubstraitExtension_def)
  next
    case (Inr a)
    with s fails show ?thesis by (simp add: as_def decode_SubstraitExtension_def)
  qed
qed

lemma extension_with_bad_aggregate_function:
  assumes sec: "subscript document ''aggregate_functions'' = Inr (Some (YSequence functionNodes))"
    and mem: "functionNode \<in> set functionNodes"
    and bad: "\<exists>e. as (decode_SubstraitAggregateFunction k) functionNode = Inl e"
  shows "\<exists>e. as (decode_SubstraitExtension k) document = Inl e"
proof -
  from bad obtain e where "as (decode_SubstraitAggregateFunction k) functionNode = Inl e" ..
  from forEach_fails [of functionNode functionNodes "as (decode_SubstraitAggregateFunction k)",
      OF mem this]
  obtain e' where
    fails: "forEach (as (decode_SubstraitAggregateFunction k)) functionNodes = Inl e'" ..
  from sec have a: "sequenceAt document ''aggregate_functions'' = Inr (Some functionNodes)"
    by (simp add: sequenceAt_def)
  show ?thesis
  proof (cases "sequenceAt document ''scalar_functions''")
    case (Inl e)
    then show ?thesis by (simp add: as_def decode_SubstraitExtension_def)
  next
    case (Inr sc)
    show ?thesis
    proof (cases "forEach (as (decode_SubstraitScalarFunction k))
                    (case sc of None \<Rightarrow> [] | Some ns \<Rightarrow> ns)")
      case (Inl e)
      with Inr a show ?thesis by (simp add: as_def decode_SubstraitExtension_def)
    next
      case (Inr scalars)
      with \<open>sequenceAt document ''scalar_functions'' = Inr sc\<close> a fails show ?thesis
        by (simp add: as_def decode_SubstraitExtension_def)
    qed
  qed
qed

lemma loop_fails_on_bad_source:
  assumes "extensionUri \<in> set yamlExtensionFiles" and "loadSource k extensionUri = Inl e"
  shows "\<exists>e'. loadExtension_loop k mergedExtension yamlExtensionFiles = Inl e'"
  using assms
proof (induction yamlExtensionFiles arbitrary: mergedExtension)
  case Nil
  then show ?case by simp
next
  case (Cons uri rest)
  show ?case
  proof (cases "loadSource k uri")
    case (Inl e1)
    then show ?thesis by simp
  next
    case (Inr ext)
    with Cons.prems have "extensionUri \<in> set rest" by auto
    from Cons.IH [OF this Cons.prems(2)] Inr show ?thesis by simp
  qed
qed

lemma source_with_bad_document:
  assumes "LoadFile k extensionUri = Inr document"
    and "\<exists>e. as (decode_SubstraitExtension k) document = Inl e"
  shows "\<exists>e. loadSource k extensionUri = Inl e"
  using assms by (auto simp: loadSource_def)

text \<open>
  C4, as the code has it. If one of the sources parses as a document that has, under
  its scalar functions or under its aggregate functions, a function with an
  implementation whose \<^verbatim>\<open>return\<close> is missing or is not a scalar, then the load of the
  whole list of sources fails. A source that cannot be read or parsed makes the load
  fail as well.
\<close>

theorem malformed_entry_fails_load:
  "(extensionUri \<in> set yamlExtensionFiles
    \<and> LoadFile k extensionUri = Inr document
    \<and> (subscript document ''scalar_functions'' = Inr (Some (YSequence functionNodes))
       \<or> subscript document ''aggregate_functions'' = Inr (Some (YSequence functionNodes)))
    \<and> functionNode \<in> set functionNodes
    \<and> subscript functionNode ''impls'' = Inr (Some (YSequence implNodes))
    \<and> implNode \<in> set implNodes
    \<and> (\<forall>s. subscript implNode ''return'' \<noteq> Inr (Some (YScalar s))) \<longrightarrow>
      (\<exists>e. loadExtension k yamlExtensionFiles = Inl e))
   \<and> (unreadableUri \<in> set files \<and> LoadFile k' unreadableUri = Inl e0 \<longrightarrow>
      (\<exists>e. loadExtension k' files = Inl e))"
proof (intro conjI impI)
  assume a: "extensionUri \<in> set yamlExtensionFiles
    \<and> LoadFile k extensionUri = Inr document
    \<and> (subscript document ''scalar_functions'' = Inr (Some (YSequence functionNodes))
       \<or> subscript document ''aggregate_functions'' = Inr (Some (YSequence functionNodes)))
    \<and> functionNode \<in> set functionNodes
    \<and> subscript functionNode ''impls'' = Inr (Some (YSequence implNodes))
    \<and> implNode \<in> set implNodes
    \<and> (\<forall>s. subscript implNode ''return'' \<noteq> Inr (Some (YScalar s)))"
  then have noret: "\<forall>s. subscript implNode ''return'' \<noteq> Inr (Some (YScalar s))"
    and impls: "subscript functionNode ''impls'' = Inr (Some (YSequence implNodes))"
    and im: "implNode \<in> set implNodes" and fm: "functionNode \<in> set functionNodes"
    and doc: "LoadFile k extensionUri = Inr document"
    and uri: "extensionUri \<in> set yamlExtensionFiles"
    by simp_all
  have sf: "\<exists>e. as (decode_SubstraitScalarFunction k) functionNode = Inl e"
    unfolding decode_SubstraitScalarFunction_def
    using impls im scalar_variant_without_return [OF noret] by (rule function_with_bad_impl)
  have af: "\<exists>e. as (decode_SubstraitAggregateFunction k) functionNode = Inl e"
    unfolding decode_SubstraitAggregateFunction_def
    using impls im aggregate_variant_without_return [OF noret] by (rule function_with_bad_impl)
  from a have "subscript document ''scalar_functions'' = Inr (Some (YSequence functionNodes))
       \<or> subscript document ''aggregate_functions'' = Inr (Some (YSequence functionNodes))"
    by simp
  then have "\<exists>e. as (decode_SubstraitExtension k) document = Inl e"
  proof
    assume "subscript document ''scalar_functions'' = Inr (Some (YSequence functionNodes))"
    from this fm sf show ?thesis by (rule extension_with_bad_scalar_function)
  next
    assume "subscript document ''aggregate_functions'' = Inr (Some (YSequence functionNodes))"
    from this fm af show ?thesis by (rule extension_with_bad_aggregate_function)
  qed
  with doc have "\<exists>e. loadSource k extensionUri = Inl e"
    by (rule source_with_bad_document)
  then obtain e where "loadSource k extensionUri = Inl e" ..
  from loop_fails_on_bad_source [OF uri this]
  show "\<exists>e. loadExtension k yamlExtensionFiles = Inl e"
    by (simp add: loadExtension_def)
next
  assume "unreadableUri \<in> set files \<and> LoadFile k' unreadableUri = Inl e0"
  then have uri: "unreadableUri \<in> set files" and "LoadFile k' unreadableUri = Inl e0"
    by simp_all
  then have "loadSource k' unreadableUri = Inl e0" by (simp add: loadSource_def)
  from loop_fails_on_bad_source [OF uri this]
  show "\<exists>e. loadExtension k' files = Inl e"
    by (simp add: loadExtension_def)
qed

theorem malformed_entry_fails_load_witness:
  "''bad.yaml'' \<in> set [''good.yaml'', ''bad.yaml'']
   \<and> LoadFile exampleLoader ''bad.yaml'' = Inr (catalogOf [implWithoutReturn, completeImpl])
   \<and> implWithoutReturn \<in> set [implWithoutReturn, completeImpl]
   \<and> subscript implWithoutReturn ''return'' = Inr None
   \<and> (\<exists>e. loadExtension exampleLoader [''good.yaml'', ''bad.yaml''] = Inl e)
   \<and> ''missing.yaml'' \<in> set [''good.yaml'', ''missing.yaml'']
   \<and> LoadFile exampleLoader ''missing.yaml'' = Inl YamlBadFile
   \<and> (\<exists>e. loadExtension exampleLoader [''good.yaml'', ''missing.yaml''] = Inl e)"
proof -
  let ?fn = "YMap [(''name'', YScalar ''add''),
                   (''impls'', YSequence [implWithoutReturn, completeImpl])]"
  have doc: "LoadFile exampleLoader ''bad.yaml'' = Inr (catalogOf [implWithoutReturn, completeImpl])"
    and missing: "LoadFile exampleLoader ''missing.yaml'' = Inl YamlBadFile"
    by (simp_all add: exampleLoader_def)
  have sec: "subscript (catalogOf [implWithoutReturn, completeImpl]) ''scalar_functions'' =
      Inr (Some (YSequence [?fn]))"
    by (simp add: catalogOf_def)
  have impls: "subscript ?fn ''impls'' = Inr (Some (YSequence [implWithoutReturn, completeImpl]))"
    by simp
  have noret: "subscript implWithoutReturn ''return'' = Inr None"
    by (simp add: implWithoutReturn_def)
  note inst = malformed_entry_fails_load [where extensionUri = "''bad.yaml''"
      and yamlExtensionFiles = "[''good.yaml'', ''bad.yaml'']" and k = exampleLoader
      and document = "catalogOf [implWithoutReturn, completeImpl]"
      and functionNodes = "[?fn]" and functionNode = ?fn
      and implNodes = "[implWithoutReturn, completeImpl]" and implNode = implWithoutReturn
      and unreadableUri = "''missing.yaml''" and files = "[''good.yaml'', ''missing.yaml'']"
      and k' = exampleLoader and ?e0.0 = YamlBadFile]
  from inst doc missing sec impls noret show ?thesis by simp
qed

subsection \<open>C9: the if/then call converter\<close>

declare ifThenLoop.simps [simp del]

lemma forEachState_append:
  "forEachState f (xs @ ys) c =
     (case forEachState f xs c of
        Inl e \<Rightarrow> Inl e
      | Inr (es1, c1) \<Rightarrow>
          (case forEachState f ys c1 of
             Inl e \<Rightarrow> Inl e
           | Inr (es2, c2) \<Rightarrow> Inr (es1 @ es2, c2)))"
  by (induction xs arbitrary: c) (auto split: sum.splits)

lemma forEachState_length:
  "forEachState f xs c = Inr (ys, c') \<Longrightarrow> length ys = length xs"
  by (induction xs arbitrary: c ys) (auto split: sum.splits)

lemma take_two_more:
  assumes "Suc i < length xs"
  shows "take (2 * Suc n) (drop i xs) = xs ! i # xs ! Suc i # take (2 * n) (drop (i + 2) xs)"
proof -
  from assms have "drop i xs = xs ! i # drop (Suc i) xs"
    by (simp add: Cons_nth_drop_Suc)
  moreover from assms have "drop (Suc i) xs = xs ! Suc i # drop (Suc (Suc i)) xs"
    by (simp add: Cons_nth_drop_Suc)
  ultimately show ?thesis by simp
qed

lemma ifThenLoop_pairs:
  assumes "i + 2 * n = lastIndex" and "lastIndex \<le> length callInputs"
  shows "ifThenLoop conv callInputs i lastIndex ifClauses c =
     (case forEachState conv (take (2 * n) (drop i callInputs)) c of
        Inl e \<Rightarrow> Inl e
      | Inr (es, c') \<Rightarrow> Inr (ifClauses @ clausePairs es, c'))"
  using assms
proof (induction n arbitrary: i ifClauses c)
  case 0
  then show ?case by (simp add: ifThenLoop.simps)
next
  case (Suc n)
  from Suc.prems have lt: "i < lastIndex" "Suc i < length callInputs" "i < length callInputs"
    by simp_all
  from Suc.prems have next_i: "Suc (Suc i) + 2 * n = lastIndex" by simp
  note IH = Suc.IH [OF next_i Suc.prems(2)]
  show ?case
    apply (subst ifThenLoop.simps)
    apply (simp only: take_two_more [OF lt(2)])
    apply (simp add: lt vector_at_def IH split: sum.splits prod.splits)
    done
qed

lemma clausePairs_length: "length (clausePairs xs) = length xs div 2"
  by (induction xs rule: clausePairs.induct) simp_all

lemma clausePairs_nth:
  "j < length xs div 2 \<Longrightarrow> clausePairs xs ! j = (xs ! (2 * j), xs ! (2 * j + 1))"
proof (induction xs arbitrary: j rule: clausePairs.induct)
  case (1 a b rest)
  then show ?case by (cases j) simp_all
qed simp_all


lemma ifThen_odd:
  assumes nm: "call_name callTypeExpr = ''if''" and odd: "odd (length (call_inputs callTypeExpr))"
  shows "VeloxToSubstraitIfThenConverter_convert conv callTypeExpr c =
     (case forEachState conv (call_inputs callTypeExpr) c of
        Inl e \<Rightarrow> Inl e
      | Inr (es, c') \<Rightarrow> Inr (Some (kIfThen (clausePairs (butlast es)) (Some (last es))), c'))"
proof -
  let ?xs = "call_inputs callTypeExpr"
  from odd obtain n where n: "length ?xs = 2 * n + 1"
    by (auto elim: oddE)
  then have lastIndex: "length ?xs - 1 = 2 * n" and m: "length ?xs mod 2 = 1" by simp_all
  from n have split: "?xs = take (2 * n) ?xs @ [?xs ! (2 * n)]"
    by (metis Suc_eq_plus1 lessI take_Suc_conv_app_nth take_all order_refl)
  have loop: "ifThenLoop conv ?xs 0 (2 * n) [] c =
     (case forEachState conv (take (2 * n) ?xs) c of
        Inl e \<Rightarrow> Inl e
      | Inr (es, c') \<Rightarrow> Inr (clausePairs es, c'))"
    using ifThenLoop_pairs [of 0 n "2 * n" ?xs conv "[]" c] n
    by (simp split: sum.splits prod.splits)
  have whole: "forEachState conv ?xs c =
     (case forEachState conv (take (2 * n) ?xs) c of
        Inl e \<Rightarrow> Inl e
      | Inr (es1, c1) \<Rightarrow>
          (case conv (?xs ! (2 * n)) c1 of
             Inl e \<Rightarrow> Inl e
           | Inr (y, c2) \<Rightarrow> Inr (es1 @ [y], c2)))"
    by (subst split, subst forEachState_append) (simp split: sum.splits prod.splits)
  have at_last: "vector_at ?xs (2 * n) = Inr (?xs ! (2 * n))"
    using n by (simp add: vector_at_def)
  have unfold: "VeloxToSubstraitIfThenConverter_convert conv callTypeExpr c =
     (case ifThenLoop conv ?xs 0 (2 * n) [] c of
        Inl e \<Rightarrow> Inl e
      | Inr (ifClauses, c1) \<Rightarrow>
          (case conv (?xs ! (2 * n)) c1 of
             Inl e \<Rightarrow> Inl e
           | Inr (elseExpr, c2) \<Rightarrow> Inr (Some (kIfThen ifClauses (Some elseExpr)), c2)))"
    using nm n at_last
    by (simp add: VeloxToSubstraitIfThenConverter_convert_def Let_def
          split: sum.splits prod.splits)
  show ?thesis
    unfolding unfold whole loop
    by (simp split: sum.splits prod.splits)
qed

text \<open>
  C9. The if/then call converter declines, with the state unchanged, every call whose
  name is not \<^verbatim>\<open>if\<close>. A call named \<^verbatim>\<open>if\<close> with an even number of arguments
  fails as not yet implemented. With an odd number of arguments the top-level converter
  is run on all arguments in order; when one of these conversions fails, the converter
  fails with that failure; otherwise the result holds the converted arguments but the
  last, paired two by two in order as condition and result, and the converted last
  argument as the else branch: for \<open>n\<close> arguments there are \<open>(n - 1) div 2\<close> pairs,
  and pair \<open>j\<close> is made of the converted arguments \<open>2j\<close> and \<open>2j + 1\<close>.
\<close>

theorem if_then_converter:
  "(call_name e0 \<noteq> ''if'' \<longrightarrow>
      VeloxToSubstraitIfThenConverter_convert conv0 e0 c0 = Inr (None, c0))
   \<and> (call_name e1 = ''if'' \<and> even (length (call_inputs e1)) \<longrightarrow>
      VeloxToSubstraitIfThenConverter_convert conv1 e1 c1 = Inl VeloxNYI)
   \<and> (call_name e2 = ''if'' \<and> odd (length (call_inputs e2)) \<longrightarrow>
      VeloxToSubstraitIfThenConverter_convert conv2 e2 c2 =
        (case forEachState conv2 (call_inputs e2) c2 of
           Inl e \<Rightarrow> Inl e
         | Inr (es, c') \<Rightarrow>
             Inr (Some (kIfThen (clausePairs (butlast es)) (Some (last es))), c')))
   \<and> (odd (length (call_inputs e2)) \<and> forEachState conv2 (call_inputs e2) c2 = Inr (es, c') \<longrightarrow>
      length (clausePairs (butlast es)) = (length (call_inputs e2) - 1) div 2
      \<and> (\<forall>j < (length (call_inputs e2) - 1) div 2.
            clausePairs (butlast es) ! j = (es ! (2 * j), es ! (2 * j + 1))))"
proof (intro conjI impI)
  assume "call_name e0 \<noteq> ''if''"
  then show "VeloxToSubstraitIfThenConverter_convert conv0 e0 c0 = Inr (None, c0)"
    by (simp add: VeloxToSubstraitIfThenConverter_convert_def)
next
  assume "call_name e1 = ''if'' \<and> even (length (call_inputs e1))"
  then show "VeloxToSubstraitIfThenConverter_convert conv1 e1 c1 = Inl VeloxNYI"
    by (simp add: VeloxToSubstraitIfThenConverter_convert_def even_iff_mod_2_eq_zero)
next
  assume "call_name e2 = ''if'' \<and> odd (length (call_inputs e2))"
  then show "VeloxToSubstraitIfThenConverter_convert conv2 e2 c2 =
        (case forEachState conv2 (call_inputs e2) c2 of
           Inl e \<Rightarrow> Inl e
         | Inr (es, c') \<Rightarrow>
             Inr (Some (kIfThen (clausePairs (butlast es)) (Some (last es))), c'))"
    by (simp add: ifThen_odd)
next
  assume a: "odd (length (call_inputs e2)) \<and> forEachState conv2 (call_inputs e2) c2 = Inr (es, c')"
  then have len: "length es = length (call_inputs e2)"
    by (auto dest: forEachState_length)
  then show "length (clausePairs (butlast es)) = (length (call_inputs e2) - 1) div 2"
    by (simp add: clausePairs_length)
  show "\<forall>j < (length (call_inputs e2) - 1) div 2.
            clausePairs (butlast es) ! j = (es ! (2 * j), es ! (2 * j + 1))"
  proof (intro allI impI)
    fix j assume j: "j < (length (call_inputs e2) - 1) div 2"
    with len have "j < length (butlast es) div 2" by simp
    then have "clausePairs (butlast es) ! j = (butlast es ! (2 * j), butlast es ! (2 * j + 1))"
      by (rule clausePairs_nth)
    moreover from j len have "2 * j + 1 < length (butlast es)" by simp
    ultimately show "clausePairs (butlast es) ! j = (es ! (2 * j), es ! (2 * j + 1))"
      by (simp add: nth_butlast)
  qed
qed

theorem if_then_converter_witness:
  "call_name (BIGINT, [ConstantTypedExpr BIGINT (Some (VInt 1))], ''negate'') \<noteq> ''if''
   \<and> VeloxToSubstraitIfThenConverter_convert exampleTopLevel
        (BIGINT, [ConstantTypedExpr BIGINT (Some (VInt 1))], ''negate'') () = Inr (None, ())
   \<and> call_name (BIGINT, [FieldAccessTypedExpr BOOLEAN ''b'',
          ConstantTypedExpr BIGINT (Some (VInt 1))], ''if'') = ''if''
   \<and> even (length (call_inputs (BIGINT, [FieldAccessTypedExpr BOOLEAN ''b'',
          ConstantTypedExpr BIGINT (Some (VInt 1))], ''if'')))
   \<and> VeloxToSubstraitIfThenConverter_convert exampleTopLevel
        (BIGINT, [FieldAccessTypedExpr BOOLEAN ''b'',
          ConstantTypedExpr BIGINT (Some (VInt 1))], ''if'') () = Inl VeloxNYI
   \<and> call_name exampleIf = ''if'' \<and> odd (length (call_inputs exampleIf))
   \<and> forEachState exampleTopLevel (call_inputs exampleIf) () =
        Inr ([fieldRef 1, kLiteral (kI64 1), kLiteral (kI64 2)], ())
   \<and> VeloxToSubstraitIfThenConverter_convert exampleTopLevel exampleIf () =
        Inr (Some (kIfThen [(fieldRef 1, kLiteral (kI64 1))] (Some (kLiteral (kI64 2)))), ())
   \<and> length (clausePairs (butlast [fieldRef 1, kLiteral (kI64 1), kLiteral (kI64 2)])) = 1
   \<and> clausePairs (butlast [fieldRef 1, kLiteral (kI64 1), kLiteral (kI64 2)]) ! 0 =
        (fieldRef 1, kLiteral (kI64 1))"
proof -
  have nm: "call_name exampleIf = ''if''" and len: "length (call_inputs exampleIf) = 3"
    and inputs: "forEachState exampleTopLevel (call_inputs exampleIf) () =
        Inr ([fieldRef 1, kLiteral (kI64 1), kLiteral (kI64 2)], ())"
    by (simp_all add: exampleIf_def exampleTopLevel_def fieldRef_def)
  note inst = if_then_converter [where ?e0.0 = "(BIGINT, [ConstantTypedExpr BIGINT (Some (VInt 1))], ''negate'')"
      and ?conv0.0 = exampleTopLevel and ?c0.0 = "()"
      and ?e1.0 = "(BIGINT, [FieldAccessTypedExpr BOOLEAN ''b'',
          ConstantTypedExpr BIGINT (Some (VInt 1))], ''if'')"
      and ?conv1.0 = exampleTopLevel and ?c1.0 = "()"
      and ?e2.0 = exampleIf and ?conv2.0 = exampleTopLevel and ?c2.0 = "()"
      and es = "[fieldRef 1, kLiteral (kI64 1), kLiteral (kI64 2)]" and c' = "()"]
  from inst nm len inputs show ?thesis
    by (simp add: numeral_3_eq_3)
qed

subsection \<open>C7: node kinds the outbound dispatcher does not test\<close>

text \<open>
  C7. The dispatcher of the outbound converter tests five node kinds and has no final
  branch. A limit, an order-by or a table scan node is neither converted nor rejected:
  the relation stays the empty message it was, as the root of the returned plan or as
  the input of the relation built for the node above it. The join overload, by contrast,
  rejects a join type it does not support, and the inbound dispatcher rejects the empty
  relation that the outbound one returns.
\<close>

theorem unsupported_node_left_unconverted:
  "toSubstrait_PlanNode k (LimitNode i limitOffset limitCount isPartial source) c =
     Inr (REL_TYPE_NOT_SET, c)
   \<and> toSubstrait_PlanNode k (OrderByNode i1 sortingKeys sortingOrders isPartial1 source1) c =
     Inr (REL_TYPE_NOT_SET, c)
   \<and> toSubstrait_PlanNode k (TableScanNode i2 rowType tableHandle assignments) c =
     Inr (REL_TYPE_NOT_SET, c)
   \<and> toSubstrait_Plan k (LimitNode i limitOffset limitCount isPartial source) c =
     Inr (\<lparr>extensions = addExtensionToPlan k c,
           relations = [kRoot (names (outputType source)) (Some REL_TYPE_NOT_SET)]\<rparr>, c)
   \<and> toSubstrait_PlanNode k
       (FilterNode j filterCondition (LimitNode i limitOffset limitCount isPartial source)) c =
     (case toSubstraitExpr k filterCondition (outputType source) c of
        Inl e \<Rightarrow> Inl e
      | Inr (cond, c2) \<Rightarrow> Inr (FilterRel (Some kDirect) (Some REL_TYPE_NOT_SET) cond, c2))
   \<and> toSubstrait_PlanNode k (HashJoinNode i3 kLeft leftKeys rightKeys joinFilter l r t) c =
     Inl VeloxUnsupported
   \<and> toVeloxPlan_Rel collaborators fm REL_TYPE_NOT_SET s = Inl VeloxNYI"
  by (simp add: toSubstrait_Plan_def checkForSupportJoinType_def)

end
